theory Spec2Isabelle
  imports Complex_Main "HOL-Library.Sublist"
begin

section \<open>Strings and paths\<close>

text \<open>
  JavaScript strings are modelled as \<open>string\<close> (ASCII). \<open>includes_str\<close> is
  \<open>String.prototype.includes\<close>: the pattern occurs at some offset of the text.
\<close>

fun includes_str :: "string \<Rightarrow> string \<Rightarrow> bool" where
  "includes_str [] p = (p = [])"
| "includes_str (c # cs) p = (prefix p (c # cs) \<or> includes_str cs p)"

definition toLowerChar :: "char \<Rightarrow> char" where
  "toLowerChar c =
     (let n = of_char c :: nat in if 65 \<le> n \<and> n \<le> 90 then char_of (n + 32) else c)"

definition toLowerCase :: "string \<Rightarrow> string" where
  "toLowerCase s = map toLowerChar s"

text \<open>
  Node's POSIX \<open>path\<close> module is a dependency of the repository. The three functions used
  by the code are modelled after its documented behaviour: trailing slashes are ignored,
  the last component is what follows the last remaining slash, the extension starts at
  the last dot of that component unless the dot is its first character or the component
  is \<open>..\<close>, and \<open>basename\<close> removes a given suffix from the component when the component
  ends with it and is not equal to it. The code only passes \<open>basename\<close> a suffix taken
  from the extension of the same path, which is never longer than the component.
\<close>

definition stripTrailingSlashes :: "string \<Rightarrow> string" where
  "stripTrailingSlashes p = rev (dropWhile (\<lambda>c. c = CHR ''/'') (rev p))"

definition lastComponent :: "string \<Rightarrow> string" where
  "lastComponent p = rev (takeWhile (\<lambda>c. c \<noteq> CHR ''/'') (rev (stripTrailingSlashes p)))"

definition extname :: "string \<Rightarrow> string" where
  "extname p =
     (let b = lastComponent p;
          ext = rev (takeWhile (\<lambda>c. c \<noteq> CHR ''.'') (rev b))
      in if CHR ''.'' \<notin> set b \<or> length ext + 1 = length b \<or> b = ''..'' then []
         else CHR ''.'' # ext)"

definition basename :: "string \<Rightarrow> string \<Rightarrow> string" where
  "basename p ext =
     (let b = lastComponent p
      in if ext \<noteq> [] \<and> length ext \<le> length p then
           (if ext = p then []
            else if suffix ext b \<and> ext \<noteq> b then take (length b - length ext) b
            else b)
         else b)"

text \<open>
  \<open>path.join(dir, entry)\<close>: the non-empty arguments are joined with a slash and the
  result is normalised. Normalisation walks the segments between slashes, drops empty
  segments and \<open>.\<close>, lets \<open>..\<close> remove the segment before it (or keeps it, in a relative
  path with nothing left to remove), and puts back a leading and a trailing slash.
\<close>

fun split_slash :: "string \<Rightarrow> string list" where
  "split_slash [] = [[]]"
| "split_slash (c # cs) =
     (if c = CHR ''/'' then [] # split_slash cs
      else (case split_slash cs of p # ps \<Rightarrow> (c # p) # ps | [] \<Rightarrow> [[c]]))"

definition norm_step :: "bool \<Rightarrow> string \<Rightarrow> string list \<Rightarrow> string list" where
  "norm_step allowAboveRoot seg res =
     (if seg = [] \<or> seg = ''.'' then res
      else if seg = ''..'' then
        (if res \<noteq> [] \<and> last res \<noteq> ''..'' then butlast res
         else if allowAboveRoot then res @ [''..''] else res)
      else res @ [seg])"

fun join_segs :: "string list \<Rightarrow> string" where
  "join_segs [] = []"
| "join_segs [s] = s"
| "join_segs (s # t # ts) = s @ CHR ''/'' # join_segs (t # ts)"

definition normalizeString :: "string \<Rightarrow> bool \<Rightarrow> string" where
  "normalizeString p allowAboveRoot =
     join_segs (fold (norm_step allowAboveRoot) (split_slash p) [])"

definition normalize :: "string \<Rightarrow> string" where
  "normalize p =
     (if p = [] then ''.''
      else (let isAbsolute = (hd p = CHR ''/'');
                trailingSeparator = (last p = CHR ''/'');
                body = normalizeString p (\<not> isAbsolute)
            in if body = [] then
                 (if isAbsolute then ''/'' else if trailingSeparator then ''./'' else ''.'')
               else (if isAbsolute then ''/'' else []) @ body @
                    (if trailingSeparator then ''/'' else [])))"

definition path_join :: "string \<Rightarrow> string \<Rightarrow> string" where
  "path_join dir entry =
     (let joined = (if dir = [] then entry else if entry = [] then dir
                    else dir @ CHR ''/'' # entry)
      in if joined = [] then ''.'' else normalize joined)"

section \<open>Manifest service\<close>

text \<open>
  The service reads through \<open>fs.readFile\<close>, parses with \<open>JSON.parse\<close> or \<open>yaml.load\<close>,
  and validates with a compiled Ajv schema. These are the environment of the service;
  each of them may throw, which is the \<open>Inl\<close> of a sum carrying the error's message.
\<close>

datatype read_result = Content string | ENOENT | ReadError string

record ('d, 's) service =
  readFile :: "string \<Rightarrow> read_result"
  JSON_parse :: "string \<Rightarrow> string + 'd"
  yaml_load :: "string \<Rightarrow> string + 'd"
  schemas :: "string \<rightharpoonup> 's"
  ajv_compile :: "'s \<Rightarrow> string + ('d \<Rightarrow> bool \<times> string list)"

record 'd validation_result =
  isValid :: bool
  data :: "'d option"
  errors :: "string list"
  filePath :: string

definition getFileExtension :: "string \<Rightarrow> string" where
  "getFileExtension fp = toLowerCase (extname fp)"

definition isSupportedFormat :: "string \<Rightarrow> bool" where
  "isSupportedFormat extension = (extension \<in> set [''.json'', ''.yaml'', ''.yml''])"

definition readManifestFile :: "('d, 's) service \<Rightarrow> string \<Rightarrow> string + 'd" where
  "readManifestFile svc fp =
     (let extension = getFileExtension fp
      in if \<not> isSupportedFormat extension
         then Inl (''Unsupported file format: '' @ extension)
         else (case readFile svc fp of
                 ENOENT \<Rightarrow> Inl (''File not found: '' @ fp)
               | ReadError m \<Rightarrow> Inl m
               | Content content \<Rightarrow>
                   if extension = ''.json'' then JSON_parse svc content
                   else yaml_load svc content))"

text \<open>The body of the \<open>try\<close> block of \<open>validateManifest\<close>; \<open>Inl\<close> is a thrown error.\<close>

definition validateManifest_try ::
  "('d, 's) service \<Rightarrow> string \<Rightarrow> string \<Rightarrow> string + 'd validation_result" where
  "validateManifest_try svc fp schemaType =
     (case readManifestFile svc fp of
        Inl m \<Rightarrow> Inl m
      | Inr d \<Rightarrow>
          (case schemas svc schemaType of
             None \<Rightarrow> Inl (''Unknown schema type: '' @ schemaType)
           | Some schema \<Rightarrow>
               (case ajv_compile svc schema of
                  Inl m \<Rightarrow> Inl m
                | Inr validate \<Rightarrow>
                    (let (valid, msgs) = validate d
                     in Inr \<lparr>isValid = valid,
                             data = (if valid then Some d else None),
                             errors = (if valid then [] else msgs),
                             filePath = fp\<rparr>))))"

text \<open>The whole function: the \<open>catch\<close> clause turns a thrown error into a result.\<close>

definition validateManifest ::
  "('d, 's) service \<Rightarrow> string \<Rightarrow> string \<Rightarrow> 'd validation_result" where
  "validateManifest svc fp schemaType =
     (case validateManifest_try svc fp schemaType of
        Inr r \<Rightarrow> r
      | Inl m \<Rightarrow> \<lparr>isValid = False, data = None, errors = [m], filePath = fp\<rparr>)"

text \<open>
  The schema type inferred inside the loop of \<open>processManifestFiles\<close>: the \<open>if\<close>/\<open>else if\<close>
  chain on the file name without its (lower-cased) extension.
\<close>

definition inferSchemaType :: "string \<Rightarrow> string" where
  "inferSchemaType fp =
     (let extension = getFileExtension fp;
          filename = basename fp extension
      in if includes_str filename ''strategy'' then ''test-strategy''
         else if includes_str filename ''plan'' then ''test-plan''
         else if includes_str filename ''charter'' then ''test-charter''
         else if includes_str filename ''session'' then ''test-session''
         else if includes_str filename ''report'' then ''test-report''
         else if includes_str filename ''suite'' then ''test-suite''
         else if includes_str filename ''case'' then ''test-case''
         else if includes_str filename ''status'' then ''test-status-report''
         else ''project'')"

text \<open>
  The loop of \<open>processManifestFiles\<close>, with the results pushed so far as accumulator.
  For string paths nothing in the body throws (\<open>validateManifest\<close> catches its own
  errors), so the loop's \<open>catch\<close> clause is never entered.
\<close>

fun processManifestFiles_loop ::
  "('d, 's) service \<Rightarrow> string list \<Rightarrow> 'd validation_result list \<Rightarrow> 'd validation_result list" where
  "processManifestFiles_loop svc [] results = results"
| "processManifestFiles_loop svc (fp # fps) results =
     processManifestFiles_loop svc fps (results @ [validateManifest svc fp (inferSchemaType fp)])"

definition processManifestFiles ::
  "('d, 's) service \<Rightarrow> string list \<Rightarrow> 'd validation_result list" where
  "processManifestFiles svc filePaths = processManifestFiles_loop svc filePaths []"

text \<open>
  The specification's wording of the inference: a table in priority order, searched for
  the first keyword the file name contains.
\<close>

definition schema_priority :: "(string \<times> string) list" where
  "schema_priority =
     [(''strategy'', ''test-strategy''), (''plan'', ''test-plan''),
      (''charter'', ''test-charter''), (''session'', ''test-session''),
      (''report'', ''test-report''), (''suite'', ''test-suite''),
      (''case'', ''test-case''), (''status'', ''test-status-report'')]"

definition first_match_schema :: "string \<Rightarrow> string" where
  "first_match_schema filename =
     (case find (\<lambda>(kw, ty). includes_str filename kw) schema_priority of
        None \<Rightarrow> ''project''
      | Some (kw, ty) \<Rightarrow> ty)"


section \<open>File system service\<close>

text \<open>
  The file system is what \<open>fs.readdir\<close> and \<open>fs.stat\<close> answer for each path: either
  an error (with its \<open>code\<close> and \<open>message\<close>) or the entry names, respectively the kind,
  size and modification time. Nothing is assumed about it: a directory may be reachable
  from itself, and directories may nest without end.
\<close>

record fs_error =
  code :: string
  message :: string

datatype entry_kind = Directory | RegularFile | Other

record stats =
  kind :: entry_kind
  stat_size :: nat
  stat_mtime :: int

record filesystem =
  readdir :: "string \<Rightarrow> fs_error + string list"
  stat :: "string \<Rightarrow> fs_error + stats"

record file_info =
  file_name :: string
  file_path :: string
  file_size :: nat
  file_mtime :: int
  file_extension :: string

record dir_info =
  dir_name :: string
  dir_path :: string
  dir_size :: nat
  dir_mtime :: int

text \<open>
  What \<open>scanDirectory\<close> returns: its result object, or the object built by
  \<open>handleFileSystemError\<close>, whose \<open>success\<close> is false. The fields of a result that
  the error object does not have read as \<open>undefined\<close> there, which the code treats as
  empty, zero and false.
\<close>

datatype scan_result =
  ScanResult (path: string) (files: "file_info list") (directories: "dir_info list")
    (subdirectories: "scan_result list") (totalFiles: nat) (maxDepthReached: bool)
| ScanError (error: string) (errorType: string) (suggestions: "string list")
where
  "files (ScanError e t s) = []"
| "subdirectories (ScanError e t s) = []"
| "totalFiles (ScanError e t s) = 0"
| "maxDepthReached (ScanError e t s) = False"

fun success :: "scan_result \<Rightarrow> bool" where
  "success (ScanResult p fl ds subs n m) = True"
| "success (ScanError e t s) = False"

text \<open>
  The options object of \<open>scanDirectory\<close>: each property may be absent. The function
  destructures it with defaults; \<open>recursive\<close>, \<open>extensions\<close>, \<open>maxDepth\<close> and
  \<open>currentDepth\<close> below are the resulting local variables.
\<close>

record scan_options =
  opt_recursive :: "bool option"
  opt_extensions :: "string list option"
  opt_maxDepth :: "int option"
  opt_currentDepth :: "int option"

definition MANIFEST_EXTENSIONS :: "string list" where
  "MANIFEST_EXTENSIONS = [''.json'', ''.yaml'', ''.yml'']"

definition recursive :: "scan_options \<Rightarrow> bool" where
  "recursive opts = (case opt_recursive opts of Some b \<Rightarrow> b | None \<Rightarrow> False)"

definition extensions :: "scan_options \<Rightarrow> string list" where
  "extensions opts = (case opt_extensions opts of Some x \<Rightarrow> x | None \<Rightarrow> MANIFEST_EXTENSIONS)"

definition maxDepth :: "scan_options \<Rightarrow> int" where
  "maxDepth opts = (case opt_maxDepth opts of Some m \<Rightarrow> m | None \<Rightarrow> 10)"

definition currentDepth :: "scan_options \<Rightarrow> int" where
  "currentDepth opts = (case opt_currentDepth opts of Some d \<Rightarrow> d | None \<Rightarrow> 0)"

text \<open>The empty options object.\<close>

definition no_options :: scan_options where
  "no_options =
     \<lparr>opt_recursive = None, opt_extensions = None, opt_maxDepth = None,
      opt_currentDepth = None\<rparr>"

lemma deeper_options [simp]:
  "currentDepth (opts\<lparr>opt_currentDepth := Some d\<rparr>) = d"
  "maxDepth (opts\<lparr>opt_currentDepth := x\<rparr>) = maxDepth opts"
  "recursive (opts\<lparr>opt_currentDepth := x\<rparr>) = recursive opts"
  "extensions (opts\<lparr>opt_currentDepth := x\<rparr>) = extensions opts"
  by (simp_all add: currentDepth_def maxDepth_def recursive_def extensions_def)

text \<open>The local variables of one invocation of \<open>scanDirectory\<close>.\<close>

record scan_state =
  st_files :: "file_info list"
  st_directories :: "dir_info list"
  st_subdirectories :: "scan_result list"
  st_totalFiles :: nat
  st_maxDepthReached :: bool

definition init_scan_state :: scan_state where
  "init_scan_state =
     \<lparr>st_files = [], st_directories = [], st_subdirectories = [], st_totalFiles = 0,
      st_maxDepthReached = False\<rparr>"

definition handleFileSystemError :: "fs_error \<Rightarrow> scan_result" where
  "handleFileSystemError e =
     (if code e = ''ENOENT'' \<or> includes_str (message e) ''ENOENT''
        then ScanError (message e) ''file_not_found'' [''Check file path'', ''Verify file exists'']
      else if code e = ''EACCES'' \<or> includes_str (message e) ''EACCES''
        then ScanError (message e) ''permission_denied''
               [''Check file permissions'', ''Run with appropriate privileges'']
      else if code e = ''ENOSPC'' \<or> includes_str (message e) ''ENOSPC''
        then ScanError (message e) ''disk_full'' [''Free up disk space'', ''Clear temporary files'']
      else if code e = ''EBUSY'' \<or> includes_str (message e) ''EBUSY''
        then ScanError (message e) ''concurrent_access''
               [''File may be in use by another process'', ''Try again later'']
      else ScanError (message e) ''file_system_error''
             [''Check system logs'', ''Verify disk health''])"

text \<open>
  \<open>scanDirectory\<close>. The \<open>for\<close> loop over the entries is a \<open>fold\<close> whose accumulator is
  either the local variables so far or the error thrown by \<open>fs.stat\<close>, which leaves the
  loop for the \<open>catch\<close> clause. The recursive call happens under \<open>currentDepth < maxDepth\<close>
  with \<open>currentDepth + 1\<close>, so the distance to \<open>maxDepth\<close> is the termination measure.
\<close>

function (domintros) scanDirectory :: "filesystem \<Rightarrow> string \<Rightarrow> scan_options \<Rightarrow> scan_result" where
  "scanDirectory fs directoryPath opts =
     (if currentDepth opts \<ge> maxDepth opts
      then ScanResult directoryPath [] [] [] 0 True
      else
       (case readdir fs directoryPath of
          Inl e \<Rightarrow> handleFileSystemError e
        | Inr entries \<Rightarrow>
           (case fold (\<lambda>entry acc.
                    case acc of
                      Inl e \<Rightarrow> Inl e
                    | Inr st \<Rightarrow>
                       (let fullPath = path_join directoryPath entry in
                        case stat fs fullPath of
                          Inl e \<Rightarrow> Inl e
                        | Inr s \<Rightarrow>
                           if kind s = Directory then
                             (let st1 = st\<lparr>st_directories := st_directories st @
                                      [\<lparr>dir_name = entry, dir_path = fullPath,
                                        dir_size = stat_size s, dir_mtime = stat_mtime s\<rparr>]\<rparr>
                              in if recursive opts \<and> currentDepth opts < maxDepth opts then
                                   (let subResult = scanDirectory fs fullPath
                                          (opts\<lparr>opt_currentDepth := Some (currentDepth opts + 1)\<rparr>)
                                    in if success subResult then
                                         Inr (st1\<lparr>st_subdirectories :=
                                                    st_subdirectories st1 @ [subResult],
                                                  st_totalFiles :=
                                                    st_totalFiles st1 + totalFiles subResult,
                                                  st_maxDepthReached :=
                                                    (if maxDepthReached subResult then True
                                                     else st_maxDepthReached st1)\<rparr>)
                                       else Inr st1)
                                 else Inr st1)
                           else if kind s = RegularFile then
                             (let ext = toLowerCase (extname entry) in
                              if ext \<in> set (extensions opts) then
                                Inr (st\<lparr>st_files := st_files st @
                                       [\<lparr>file_name = entry, file_path = fullPath,
                                         file_size = stat_size s, file_mtime = stat_mtime s,
                                         file_extension = ext\<rparr>],
                                      st_totalFiles := st_totalFiles st + 1\<rparr>)
                              else Inr st)
                           else Inr st))
                  entries (Inr init_scan_state)
            of
              Inl e \<Rightarrow> handleFileSystemError e
            | Inr st \<Rightarrow> ScanResult directoryPath (st_files st) (st_directories st)
                         (st_subdirectories st) (st_totalFiles st) (st_maxDepthReached st))))"
  by pat_completeness auto
termination
  by (relation "measure (\<lambda>(fs, p, opts). nat (maxDepth opts - currentDepth opts))") auto

declare scanDirectory.simps [simp del]

text \<open>One iteration of the loop of \<open>scanDirectory\<close>, named for the proofs.\<close>

definition scanEntry ::
  "filesystem \<Rightarrow> string \<Rightarrow> scan_options \<Rightarrow> string \<Rightarrow> fs_error + scan_state
     \<Rightarrow> fs_error + scan_state" where
  "scanEntry fs directoryPath opts entry acc =
     (case acc of
        Inl e \<Rightarrow> Inl e
      | Inr st \<Rightarrow>
         (let fullPath = path_join directoryPath entry in
          case stat fs fullPath of
            Inl e \<Rightarrow> Inl e
          | Inr s \<Rightarrow>
             if kind s = Directory then
               (let st1 = st\<lparr>st_directories := st_directories st @
                        [\<lparr>dir_name = entry, dir_path = fullPath,
                          dir_size = stat_size s, dir_mtime = stat_mtime s\<rparr>]\<rparr>
                in if recursive opts \<and> currentDepth opts < maxDepth opts then
                     (let subResult = scanDirectory fs fullPath
                            (opts\<lparr>opt_currentDepth := Some (currentDepth opts + 1)\<rparr>)
                      in if success subResult then
                           Inr (st1\<lparr>st_subdirectories :=
                                      st_subdirectories st1 @ [subResult],
                                    st_totalFiles :=
                                      st_totalFiles st1 + totalFiles subResult,
                                    st_maxDepthReached :=
                                      (if maxDepthReached subResult then True
                                       else st_maxDepthReached st1)\<rparr>)
                         else Inr st1)
                   else Inr st1)
             else if kind s = RegularFile then
               (let ext = toLowerCase (extname entry) in
                if ext \<in> set (extensions opts) then
                  Inr (st\<lparr>st_files := st_files st @
                         [\<lparr>file_name = entry, file_path = fullPath,
                           file_size = stat_size s, file_mtime = stat_mtime s,
                           file_extension = ext\<rparr>],
                        st_totalFiles := st_totalFiles st + 1\<rparr>)
                else Inr st)
             else Inr st))"

text \<open>
  \<open>discoverManifestFiles\<close>. \<open>types\<close> is \<open>null\<close> or a list of type names looked up in
  \<open>MANIFEST_TYPE_PATTERNS\<close>, each a case-insensitive substring pattern; \<open>validate\<close> runs
  \<open>validateManifestFile\<close>, which reads file contents and is a parameter here (it
  returns \<open>isValid\<close> and the error messages and never throws).
\<close>

record discover_options =
  d_recursive :: bool
  d_types :: "string list option"
  d_validate :: bool
  d_extensions :: "string list"

definition default_discover_options :: discover_options where
  "default_discover_options =
     \<lparr>d_recursive = False, d_types = None, d_validate = False,
      d_extensions = MANIFEST_EXTENSIONS\<rparr>"





text \<open>
  The module state of the cache: \<open>directoryCache\<close>, a \<open>Map\<close> from keys to cached scan
  results, kept as an association list in insertion order, and the counters
  \<open>cacheStats\<close>.
\<close>

record cache_state =
  directoryCache :: "(string \<times> scan_result) list"
  hits :: nat
  misses :: nat
  cache_size :: nat

definition empty_cache_state :: cache_state where
  "empty_cache_state = \<lparr>directoryCache = [], hits = 0, misses = 0, cache_size = 0\<rparr>"

fun cache_set :: "(string \<times> scan_result) list \<Rightarrow> string \<Rightarrow> scan_result
     \<Rightarrow> (string \<times> scan_result) list" where
  "cache_set [] k v = [(k, v)]"
| "cache_set ((k', v') # kvs) k v =
     (if k' = k then (k, v) # kvs else (k', v') # cache_set kvs k v)"

record optimize_result =
  optimized :: bool
  scanTime :: rat
  cached :: bool
  opt_success :: bool

text \<open>
  \<open>optimizeDirectoryScanning\<close>; \<open>elapsed\<close> is the reading of the high-resolution timer
  after the scan. A cached value is an object, hence truthy: a key that is present is a
  hit. The function returns its result and the new module state.
\<close>

definition optimizeDirectoryScanning ::
  "filesystem \<Rightarrow> rat \<Rightarrow> string \<Rightarrow> cache_state \<Rightarrow> optimize_result \<times> cache_state" where
  "optimizeDirectoryScanning fs elapsed directoryPath st =
     (let cacheKey = ''scan-'' @ directoryPath
      in case map_of (directoryCache st) cacheKey of
           Some c \<Rightarrow>
             (\<lparr>optimized = True, scanTime = 0, cached = True, opt_success = True\<rparr>,
              st\<lparr>hits := hits st + 1\<rparr>)
         | None \<Rightarrow>
             (let result = scanDirectory fs directoryPath
                     (no_options\<lparr>opt_recursive := Some True\<rparr>);
                  cache' = cache_set (directoryCache st) cacheKey result
              in (\<lparr>optimized = True, scanTime = elapsed, cached = False, opt_success = True\<rparr>,
                  st\<lparr>directoryCache := cache', misses := misses st + 1,
                     cache_size := length cache'\<rparr>)))"

text \<open>
  JavaScript numbers, as far as the code needs them: a finite value (an exact rational
  here; the rounding of doubles is not modelled), \<open>NaN\<close>, or an infinity.
\<close>

datatype jsnum = Fin rat | NaN | PosInf | NegInf

fun js_div :: "jsnum \<Rightarrow> jsnum \<Rightarrow> jsnum" where
  "js_div (Fin a) (Fin b) =
     (if b \<noteq> 0 then Fin (a / b)
      else if a = 0 then NaN else if a > 0 then PosInf else NegInf)"
| "js_div (Fin a) PosInf = Fin 0"
| "js_div (Fin a) NegInf = Fin 0"
| "js_div PosInf (Fin b) = (if b < 0 then NegInf else PosInf)"
| "js_div NegInf (Fin b) = (if b < 0 then PosInf else NegInf)"
| "js_div x y = NaN"

text \<open>\<open>x || 0\<close> on a number: \<open>NaN\<close> and \<open>0\<close> are falsy.\<close>

fun or_zero :: "jsnum \<Rightarrow> jsnum" where
  "or_zero NaN = Fin 0"
| "or_zero (Fin a) = (if a = 0 then Fin 0 else Fin a)"
| "or_zero x = x"

record cache_stats =
  cs_hits :: nat
  cs_misses :: nat
  cs_size :: nat
  hitRate :: jsnum

definition getCacheStats :: "cache_state \<Rightarrow> cache_stats" where
  "getCacheStats st =
     \<lparr>cs_hits = hits st, cs_misses = misses st, cs_size = cache_size st,
      hitRate = or_zero (js_div (Fin (of_nat (hits st))) (Fin (of_nat (hits st + misses st))))\<rparr>"

text \<open>Two file systems for concrete runs.\<close>

definition dir_stats :: stats where
  "dir_stats = \<lparr>kind = Directory, stat_size = 4096, stat_mtime = 0\<rparr>"


definition no_entry :: fs_error where
  "no_entry = \<lparr>code = ''ENOENT'', message = ''ENOENT: no such file or directory''\<rparr>"


text \<open>Every path is a directory whose only entry is a directory \<open>d\<close>: nesting without end.\<close>

definition endless_fs :: filesystem where
  "endless_fs = \<lparr>readdir = (\<lambda>p. Inr [''d'']), stat = (\<lambda>p. Inr dir_stats)\<rparr>"


text \<open>
  \<open>r\<close> holds the directory \<open>a\<close>; \<open>r/a\<close> holds the empty directory \<open>b\<close> and an entry \<open>x\<close>
  on which \<open>stat\<close> fails.
\<close>

definition cut_fs :: filesystem where
  "cut_fs =
     \<lparr>readdir = (\<lambda>p. if p = ''r'' then Inr [''a'']
                      else if p = ''r/a'' then Inr [''b'', ''x'']
                      else if p = ''r/a/b'' then Inr []
                      else Inl no_entry),
      stat = (\<lambda>p. if p \<in> set [''r'', ''r/a'', ''r/a/b''] then Inr dir_stats
                   else Inl no_entry)\<rparr>"

text \<open>
  Measures on scan results used to state the depth bound: how deep results nest through
  \<open>subdirectories\<close>, and whether the flag \<open>maxDepthReached\<close> is set anywhere inside.
\<close>

fun nesting :: "scan_result \<Rightarrow> nat" where
  "nesting (ScanResult p fl ds subs n m) = foldr max (map (\<lambda>s. Suc (nesting s)) subs) 0"
| "nesting (ScanError e t s) = 0"

fun flag_anywhere :: "scan_result \<Rightarrow> bool" where
  "flag_anywhere (ScanResult p fl ds subs n m) = (m \<or> list_ex flag_anywhere subs)"
| "flag_anywhere (ScanError e t s) = False"

text \<open>
  The specification's wording of discovery: the manifest files directly inside a
  directory, and the subdirectories of a directory that can be scanned.
\<close>

definition entries_of :: "filesystem \<Rightarrow> string \<Rightarrow> string list" where
  "entries_of fs d = (case readdir fs d of Inr es \<Rightarrow> es | Inl e \<Rightarrow> [])"

definition is_manifest_file :: "filesystem \<Rightarrow> string list \<Rightarrow> string \<Rightarrow> string \<Rightarrow> bool" where
  "is_manifest_file fs exts d e =
     (case stat fs (path_join d e) of
        Inr s \<Rightarrow> kind s = RegularFile \<and> toLowerCase (extname e) \<in> set exts
      | Inl err \<Rightarrow> False)"

definition is_dir :: "filesystem \<Rightarrow> string \<Rightarrow> bool" where
  "is_dir fs p = (case stat fs p of Inr s \<Rightarrow> kind s = Directory | Inl err \<Rightarrow> False)"

definition stat_ok :: "filesystem \<Rightarrow> string \<Rightarrow> bool" where
  "stat_ok fs p = (case stat fs p of Inr s \<Rightarrow> True | Inl err \<Rightarrow> False)"

definition dir_readable :: "filesystem \<Rightarrow> string \<Rightarrow> bool" where
  "dir_readable fs d =
     (case readdir fs d of
        Inr es \<Rightarrow> list_all (\<lambda>e. stat_ok fs (path_join d e)) es
      | Inl err \<Rightarrow> False)"

definition directFiles :: "filesystem \<Rightarrow> string list \<Rightarrow> string \<Rightarrow> string list" where
  "directFiles fs exts d =
     map (path_join d) (filter (is_manifest_file fs exts d) (entries_of fs d))"







section \<open>Data models\<close>

text \<open>
  A property of a JavaScript object that is expected to hold a value of some type may be
  missing (\<open>undefined\<close>), \<open>null\<close>, or hold a value.
\<close>

datatype 'a js = Undefined | Null | Val 'a

text \<open>Arithmetic on JavaScript numbers, with \<open>NaN\<close> and the infinities.\<close>

fun js_sub :: "jsnum \<Rightarrow> jsnum \<Rightarrow> jsnum" where
  "js_sub (Fin a) (Fin b) = Fin (a - b)"
| "js_sub NaN y = NaN"
| "js_sub x NaN = NaN"
| "js_sub PosInf PosInf = NaN"
| "js_sub NegInf NegInf = NaN"
| "js_sub PosInf y = PosInf"
| "js_sub NegInf y = NegInf"
| "js_sub (Fin a) PosInf = NegInf"
| "js_sub (Fin a) NegInf = PosInf"

fun js_neg :: "jsnum \<Rightarrow> jsnum" where
  "js_neg (Fin a) = Fin (- a)"
| "js_neg NaN = NaN"
| "js_neg PosInf = NegInf"
| "js_neg NegInf = PosInf"

fun js_mul :: "jsnum \<Rightarrow> jsnum \<Rightarrow> jsnum" where
  "js_mul (Fin a) (Fin b) = Fin (a * b)"
| "js_mul NaN y = NaN"
| "js_mul x NaN = NaN"
| "js_mul PosInf (Fin b) = (if b = 0 then NaN else if b > 0 then PosInf else NegInf)"
| "js_mul NegInf (Fin b) = (if b = 0 then NaN else if b > 0 then NegInf else PosInf)"
| "js_mul (Fin a) PosInf = (if a = 0 then NaN else if a > 0 then PosInf else NegInf)"
| "js_mul (Fin a) NegInf = (if a = 0 then NaN else if a > 0 then NegInf else PosInf)"
| "js_mul PosInf y = y"
| "js_mul NegInf y = js_neg y"

text \<open>\<open>Math.round\<close>: the nearest integer, a tie going up.\<close>

fun Math_round :: "jsnum \<Rightarrow> jsnum" where
  "Math_round (Fin a) = Fin (of_int \<lfloor>a + 1 / 2\<rfloor>)"
| "Math_round x = x"

subsection \<open>TestReport\<close>

record report_metrics =
  testCasesExecuted :: "rat js"
  defectsFound :: "rat js"
  timeSpentHours :: "rat js"

text \<open>Of the data of a \<open>TestReport\<close> only \<open>metrics\<close> matters here.\<close>

record test_report =
  metrics :: "report_metrics js"

text \<open>\<open>metrics ? metrics.testCasesExecuted : null\<close>; an object is truthy.\<close>

definition getTestCasesExecuted :: "test_report \<Rightarrow> rat js" where
  "getTestCasesExecuted r = (case metrics r of Val m \<Rightarrow> testCasesExecuted m | _ \<Rightarrow> Null)"

definition getDefectsFound :: "test_report \<Rightarrow> rat js" where
  "getDefectsFound r = (case metrics r of Val m \<Rightarrow> defectsFound m | _ \<Rightarrow> Null)"

text \<open>The conversion of an operand to a number, and \<open>defects || 0\<close>.\<close>

fun toNumber :: "rat js \<Rightarrow> jsnum" where
  "toNumber Undefined = NaN"
| "toNumber Null = Fin 0"
| "toNumber (Val x) = Fin x"

fun or0 :: "rat js \<Rightarrow> jsnum" where
  "or0 (Val x) = Fin x"
| "or0 v = Fin 0"

definition getPassRate :: "test_report \<Rightarrow> jsnum js" where
  "getPassRate r =
     (let executed = getTestCasesExecuted r;
          defects = getDefectsFound r
      in if executed = Null \<or> executed = Val 0 then Null
         else (let passed = js_sub (toNumber executed) (or0 defects)
               in Val (Math_round (js_mul (js_div passed (toNumber executed)) (Fin 100)))))"

definition getDefectDensity :: "test_report \<Rightarrow> jsnum js" where
  "getDefectDensity r =
     (let executed = getTestCasesExecuted r;
          defects = getDefectsFound r
      in if executed = Null \<or> executed = Val 0 then Null
         else Val (js_div (or0 defects) (toNumber executed)))"

subsection \<open>TestSession\<close>

text \<open>Of the data of a \<open>TestSession\<close> only the two times matter here.\<close>

record test_session =
  startTime :: "string js"
  endTime :: "string js"

text \<open>\<open>!s\<close> for a string property: missing, \<open>null\<close> or the empty string.\<close>

fun falsy :: "string js \<Rightarrow> bool" where
  "falsy (Val s) = (s = [])"
| "falsy v = True"

text \<open>\<open>s.split(':')\<close>.\<close>

fun split_colon :: "string \<Rightarrow> string list" where
  "split_colon [] = [[]]"
| "split_colon (c # cs) =
     (if c = CHR '':'' then [] # split_colon cs
      else (case split_colon cs of p # ps \<Rightarrow> (c # p) # ps | [] \<Rightarrow> [[c]]))"

definition is_digit :: "char \<Rightarrow> bool" where
  "is_digit c = (48 \<le> (of_char c :: nat) \<and> (of_char c :: nat) \<le> 57)"

definition is_space :: "char \<Rightarrow> bool" where
  "is_space c = ((of_char c :: nat) \<in> set [9, 10, 11, 12, 13, 32])"

definition digits_value :: "string \<Rightarrow> int" where
  "digits_value ds = foldl (\<lambda>a c. 10 * a + (int (of_char c) - 48)) 0 ds"

text \<open>
  \<open>parseInt(s, 10)\<close>: leading white space is skipped, a sign is read, and the longest
  run of decimal digits that follows is the value; what comes after it is ignored.
  \<open>None\<close> is \<open>NaN\<close>: no digit in that position. (White space is the ASCII one, and the
  value is exact; doubles are exact up to \<open>2^53\<close>.)
\<close>

definition parseInt :: "string \<Rightarrow> int option" where
  "parseInt s =
     (let s1 = dropWhile is_space s;
          neg = (s1 \<noteq> [] \<and> hd s1 = CHR ''-'');
          s2 = (if s1 \<noteq> [] \<and> (hd s1 = CHR ''-'' \<or> hd s1 = CHR ''+'') then tl s1 else s1);
          ds = takeWhile is_digit s2
      in if ds = [] then None
         else Some (if neg then - digits_value ds else digits_value ds))"

text \<open>
  A \<open>Date\<close> is its time value in milliseconds since the epoch, or invalid. The
  environment of a call is the time zone of the host, given by the two conversions of
  the language specification between time values and local time values (they differ by
  the offset in force, which changes with daylight saving), and the readings of the
  clock by the two \<open>new Date()\<close> of the two calls of \<open>_parseTime\<close>.
\<close>

datatype date = Date int | InvalidDate

record time_env =
  LocalTime :: "int \<Rightarrow> int"
  UTC :: "int \<Rightarrow> int"
  now_start :: int
  now_end :: int

definition msPerDay :: int where
  "msPerDay = 86400000"

text \<open>
  \<open>new Date()\<close> at time \<open>now\<close> followed by \<open>setHours(h, m, s, 0)\<close>: the day of the local
  time of \<open>now\<close>, with the given time of day, converted back, and invalid beyond the
  range of time values.
\<close>

definition setHours :: "time_env \<Rightarrow> int \<Rightarrow> int \<Rightarrow> int \<Rightarrow> int \<Rightarrow> date" where
  "setHours env now h m s =
     (let t = LocalTime env now;
          day = t div msPerDay;
          time = h * 3600000 + m * 60000 + s * 1000 + 0;
          u = UTC env (day * msPerDay + time)
      in if \<bar>u\<bar> > 8640000000000000 then InvalidDate else Date u)"

text \<open>\<open>_parseTime\<close>; \<open>None\<close> is \<open>null\<close>.\<close>

definition parseTime :: "time_env \<Rightarrow> int \<Rightarrow> string js \<Rightarrow> date option" where
  "parseTime env now timeStr =
     (case timeStr of
        Val s \<Rightarrow>
          if s = [] then None
          else (case split_colon s of
                  [p0, p1, p2] \<Rightarrow>
                    (case (parseInt p0, parseInt p1, parseInt p2) of
                       (Some hours, Some minutes, Some seconds) \<Rightarrow>
                         Some (setHours env now hours minutes seconds)
                     | _ \<Rightarrow> None)
                | _ \<Rightarrow> None)
      | _ \<Rightarrow> None)"

text \<open>\<open>end - start\<close> on two dates.\<close>

fun date_diff :: "date \<Rightarrow> date \<Rightarrow> jsnum" where
  "date_diff (Date e) (Date s) = Fin (of_int (e - s))"
| "date_diff e s = NaN"

definition calculateDurationFromTimes :: "time_env \<Rightarrow> test_session \<Rightarrow> jsnum js" where
  "calculateDurationFromTimes env sess =
     (if falsy (startTime sess) \<or> falsy (endTime sess) then Null
      else (case (parseTime env (now_start env) (startTime sess),
                  parseTime env (now_end env) (endTime sess)) of
              (Some start, Some end') \<Rightarrow>
                Val (Math_round (js_div (date_diff end' start) (Fin (1000 * 60))))
            | _ \<Rightarrow> Null))"

text \<open>A host on universal time, on 2 November 2026 at noon.\<close>

definition utc_noon :: time_env where
  "utc_noon =
     \<lparr>LocalTime = (\<lambda>t. t), UTC = (\<lambda>t. t), now_start = 1793620800000,
      now_end = 1793620800000\<rparr>"

text \<open>
  A host four hours behind universal time until 02:00 local time on 1 November 2026 and
  five hours behind from then on, at 12:00 universal time on that day.
\<close>

definition fall_back :: time_env where
  "fall_back =
     \<lparr>LocalTime = (\<lambda>t. if t < 1793512800000 then t - 14400000 else t - 18000000),
      UTC = (\<lambda>t. if t < 1793498400000 then t + 14400000 else t + 18000000),
      now_start = 1793534400000, now_end = 1793534400000\<rparr>"

text \<open>
  A host whose local time is at a fixed offset from universal time, with both clock
  readings on the same local day.
\<close>

definition fixed_offset :: "time_env \<Rightarrow> int \<Rightarrow> bool" where
  "fixed_offset env off =
     (LocalTime env = (\<lambda>t. t + off) \<and> UTC env = (\<lambda>t. t - off) \<and>
      (now_start env + off) div msPerDay = (now_end env + off) div msPerDay)"

text \<open>
  The specification's wording for the times: a component is numeric when it is a
  non-empty run of decimal digits.
\<close>

definition numeric_component :: "string \<Rightarrow> bool" where
  "numeric_component s = (s \<noteq> [] \<and> list_all is_digit s)"

text \<open>
  A time string is malformed when it does not split into exactly three parts at the
  colons or when \<open>parseInt\<close> finds no number at the start of one of the parts.
\<close>

definition malformed :: "string js \<Rightarrow> bool" where
  "malformed t =
     (case t of
        Val s \<Rightarrow> length (split_colon s) \<noteq> 3 \<or> list_ex (\<lambda>p. parseInt p = None) (split_colon s)
      | _ \<Rightarrow> True)"

section \<open>Merging manifest data\<close>

text \<open>
  Manifest data is what \<open>JSON.parse\<close> and \<open>yaml.load\<close> produce. An object is the list of
  its own properties in insertion order. (Properties inherited from \<open>Object.prototype\<close>
  and the reordering of integer-like keys are not modelled.)
\<close>

datatype json =
  JNull | JBool bool | JNum rat | JStr string | JArr "json list" | JObj "(string \<times> json) list"

datatype js_error = TypeError string

definition digit_char :: "nat \<Rightarrow> char" where
  "digit_char n = char_of (48 + n)"

fun string_of_nat :: "nat \<Rightarrow> string" where
  "string_of_nat n =
     (if n < 10 then [digit_char n] else string_of_nat (n div 10) @ [digit_char (n mod 10)])"

declare string_of_nat.simps [simp del]

text \<open>The own enumerable properties of a value: what \<open>{ ...v }\<close> copies.\<close>

fun index_entries :: "nat \<Rightarrow> json list \<Rightarrow> (string \<times> json) list" where
  "index_entries i [] = []"
| "index_entries i (v # vs) = (string_of_nat i, v) # index_entries (Suc i) vs"

fun own_entries :: "json \<Rightarrow> (string \<times> json) list" where
  "own_entries (JObj kvs) = kvs"
| "own_entries (JArr vs) = index_entries 0 vs"
| "own_entries (JStr s) = index_entries 0 (map (\<lambda>c. JStr [c]) s)"
| "own_entries v = []"

text \<open>\<open>Object.entries(v)\<close> throws on \<open>null\<close>.\<close>

fun Object_entries :: "json \<Rightarrow> js_error + (string \<times> json) list" where
  "Object_entries JNull = Inl (TypeError ''Cannot convert undefined or null to object'')"
| "Object_entries v = Inr (own_entries v)"

fun truthy :: "json \<Rightarrow> bool" where
  "truthy JNull = False"
| "truthy (JBool b) = b"
| "truthy (JNum n) = (n \<noteq> 0)"
| "truthy (JStr s) = (s \<noteq> [])"
| "truthy v = True"

text \<open>\<open>typeof v === 'object'\<close> holds of objects, arrays and \<open>null\<close>.\<close>

fun typeof_object :: "json \<Rightarrow> bool" where
  "typeof_object JNull = True"
| "typeof_object (JArr vs) = True"
| "typeof_object (JObj kvs) = True"
| "typeof_object v = False"

fun isArray :: "json \<Rightarrow> bool" where
  "isArray (JArr vs) = True"
| "isArray v = False"

text \<open>\<open>result[key] = v\<close>: an existing property keeps its place, a new one goes last.\<close>

fun obj_set :: "(string \<times> json) list \<Rightarrow> string \<Rightarrow> json \<Rightarrow> (string \<times> json) list" where
  "obj_set [] k v = [(k, v)]"
| "obj_set ((k', v') # kvs) k v =
     (if k' = k then (k, v) # kvs else (k', v') # obj_set kvs k v)"

lemma size_index_entries:
  "(k, v) \<in> set (index_entries i vs) \<Longrightarrow> v \<in> set vs"
  by (induction vs arbitrary: i) auto

lemma size_own_entries:
  assumes "(k, v) \<in> set (own_entries a)" and "typeof_object v"
  shows "size v < size a"
proof (cases a)
  case (JObj kvs)
  have "(k, v) \<in> set kvs \<Longrightarrow> size v < Suc (size_list (size_prod (\<lambda>x. 0) size) kvs)" for kvs
    by (induction kvs) auto
  with assms JObj show ?thesis by simp
next
  case (JArr vs)
  have "v \<in> set vs \<Longrightarrow> size v < Suc (size_list size vs)" for vs
    by (induction vs) auto
  with assms JArr size_index_entries [of k v 0 vs] show ?thesis by simp
next
  case (JStr s)
  with assms size_index_entries [of k v 0 "map (\<lambda>c. JStr [c]) s"] show ?thesis by auto
qed (use assms in auto)

lemma Object_entries_size:
  assumes "Object_entries a = Inr es" and "(k, v) \<in> set es" and "typeof_object v"
  shows "size v < size a"
  using assms size_own_entries [of k v a] by (cases a) auto

text \<open>
  \<open>mergeManifestData\<close>. The loop over \<open>Object.entries(additionalData)\<close> is a \<open>fold\<close> over
  the result built so far; a \<open>TypeError\<close> thrown by a nested call ends it.
\<close>

function mergeManifestData :: "json \<Rightarrow> json \<Rightarrow> js_error + (string \<times> json) list" where
  "mergeManifestData baseData additionalData =
     (case Object_entries additionalData of
        Inl e \<Rightarrow> Inl e
      | Inr es \<Rightarrow>
          fold (\<lambda>(key, v) acc.
                  case acc of
                    Inl e \<Rightarrow> Inl e
                  | Inr result \<Rightarrow>
                      (case map_of result key of
                         Some rk \<Rightarrow>
                           if truthy rk \<and> typeof_object rk \<and> typeof_object v \<and> \<not> isArray v
                           then (case mergeManifestData rk v of
                                   Inl e \<Rightarrow> Inl e
                                 | Inr merged \<Rightarrow> Inr (obj_set result key (JObj merged)))
                           else Inr (obj_set result key v)
                       | None \<Rightarrow> Inr (obj_set result key v)))
               es (Inr (own_entries baseData)))"
  by pat_completeness auto
termination
  by (relation "measure (\<lambda>(b, a). size a)") (auto intro: Object_entries_size)

declare mergeManifestData.simps [simp del]

section \<open>Retrying an operation\<close>

text \<open>
  The operation is given by what its successive invocations do: the invocation with
  index \<open>i\<close> (from 0) returns a value or throws one. A thrown value is \<open>null\<close> or
  \<open>undefined\<close> (what \<open>Promise.reject()\<close> gives), or any other value, of which only
  the \<open>message\<close> property is read: a string for an \<open>Error\<close>, missing for a value without
  one. The effects of \<open>retryOperation\<close> are the number of invocations and the delays it
  waited, in order. Attempt counts are natural numbers (a \<open>maxRetries\<close> below 1 behaves
  as 0).
\<close>

datatype thrown = ThrownNullish | Thrown "string js"

datatype 'a retry_result =
  RetrySuccess (result: 'a) (attempts: nat)
| RetryFailure (errorType: string) (error_message: "string js") (attempts: nat)

record retry_trace =
  invocations :: nat
  delays :: "rat list"

definition empty_trace :: retry_trace where
  "empty_trace = \<lparr>invocations = 0, delays = []\<rparr>"

text \<open>The options object: each property may be absent.\<close>

record retry_options =
  opt_maxRetries :: "nat option"
  opt_baseDelay :: "rat option"

text \<open>
  After the loop: \<open>lastError.message\<close> is read, which throws a \<open>TypeError\<close> when
  \<open>lastError\<close> is \<open>undefined\<close> (no attempt was made, or that is what was thrown) or \<open>null\<close>.
\<close>

definition retry_exhausted ::
  "nat \<Rightarrow> thrown option \<Rightarrow> retry_trace \<Rightarrow> (js_error + 'a retry_result) \<times> retry_trace" where
  "retry_exhausted maxR lastError tr =
     (case lastError of
        Some (Thrown m) \<Rightarrow> (Inr (RetryFailure ''max_retries_exceeded'' m maxR), tr)
      | _ \<Rightarrow> (Inl (TypeError ''Cannot read properties of undefined (reading message)''), tr))"

text \<open>The \<open>for\<close> loop, from the value of \<open>attempt\<close> at the loop test.\<close>

function retry_loop ::
  "(nat \<Rightarrow> thrown + 'a) \<Rightarrow> nat \<Rightarrow> rat \<Rightarrow> nat \<Rightarrow> thrown option \<Rightarrow> retry_trace
     \<Rightarrow> (js_error + 'a retry_result) \<times> retry_trace" where
  "retry_loop operation maxR baseD attempt lastError tr =
     (if attempt \<le> maxR then
        (case operation (invocations tr) of
           Inr res \<Rightarrow>
             (Inr (RetrySuccess res attempt), tr\<lparr>invocations := invocations tr + 1\<rparr>)
         | Inl err \<Rightarrow>
             (let tr1 = tr\<lparr>invocations := invocations tr + 1\<rparr>
              in if attempt = maxR then retry_exhausted maxR (Some err) tr1
                 else (let delay = baseD * 2 ^ (attempt - 1)
                       in retry_loop operation maxR baseD (attempt + 1) (Some err)
                            (tr1\<lparr>delays := delays tr1 @ [delay]\<rparr>))))
      else retry_exhausted maxR lastError tr)"
  by pat_completeness auto
termination
  by (relation "measure (\<lambda>(operation, maxR, baseD, attempt, lastError, tr). Suc maxR - attempt)")
     auto

declare retry_loop.simps [simp del]

text \<open>\<open>retryOperation\<close>: the options are destructured with the defaults 3 and 1000.\<close>

definition retryOperation ::
  "(nat \<Rightarrow> thrown + 'a) \<Rightarrow> retry_options
     \<Rightarrow> (js_error + 'a retry_result) \<times> retry_trace" where
  "retryOperation operation options =
     (let maxRetries = (case opt_maxRetries options of Some m \<Rightarrow> m | None \<Rightarrow> 3);
          baseDelay = (case opt_baseDelay options of Some b \<Rightarrow> b | None \<Rightarrow> 1000)
      in retry_loop operation maxRetries baseDelay 1 None empty_trace)"

section \<open>Schema type inference in batch processing\<close>

lemma processManifestFiles_loop_map:
  "processManifestFiles_loop svc fps acc =
     acc @ map (\<lambda>fp. validateManifest svc fp (inferSchemaType fp)) fps"
  by (induction fps arbitrary: acc) simp_all

text \<open>
  C1, as stated, at the four file names of the specification: the claim expects
  \<open>test-status-report\<close> for \<open>status-report.json\<close>, but \<open>report\<close> comes before \<open>status\<close>
  in the chain, so the four inferred types are not the four claimed ones.
\<close>

theorem processManifestFiles_status_report_counterexample:
  "map inferSchemaType
     [''project1.json'', ''strategy1.yaml'', ''charter-final.yml'', ''status-report.json'']
   \<noteq> [''project'', ''test-strategy'', ''test-charter'', ''test-status-report'']"
  by code_simp

text \<open>
  C1, amended: \<open>processManifestFiles\<close> validates every path, in input order, against the
  schema type inferred from its file name; the inference is the first match of the
  priority table \<open>strategy, plan, charter, session, report, suite, case, status\<close> on the
  base name without its extension, \<open>project\<close> when nothing matches; and the file names
  \<open>project1.json\<close>, \<open>strategy1.yaml\<close>, \<open>charter-final.yml\<close>, \<open>status-report.json\<close> and
  \<open>status1.json\<close> give \<open>project\<close>, \<open>test-strategy\<close>, \<open>test-charter\<close>, \<open>test-report\<close>
  (since \<open>report\<close> precedes \<open>status\<close>) and \<open>test-status-report\<close>.
\<close>

theorem processManifestFiles_infers_first_match:
  "processManifestFiles svc fps = map (\<lambda>fp. validateManifest svc fp (inferSchemaType fp)) fps
   \<and> inferSchemaType fp = first_match_schema (basename fp (getFileExtension fp))
   \<and> map inferSchemaType
         [''project1.json'', ''strategy1.yaml'', ''charter-final.yml'', ''status-report.json'',
          ''status1.json'']
       = [''project'', ''test-strategy'', ''test-charter'', ''test-report'', ''test-status-report'']"
proof (intro conjI)
  show "processManifestFiles svc fps = map (\<lambda>fp. validateManifest svc fp (inferSchemaType fp)) fps"
    by (simp add: processManifestFiles_def processManifestFiles_loop_map)
  show "inferSchemaType fp = first_match_schema (basename fp (getFileExtension fp))"
    by (simp add: inferSchemaType_def first_match_schema_def schema_priority_def Let_def)
  show "map inferSchemaType
         [''project1.json'', ''strategy1.yaml'', ''charter-final.yml'', ''status-report.json'',
          ''status1.json'']
       = [''project'', ''test-strategy'', ''test-charter'', ''test-report'', ''test-status-report'']"
    by code_simp
qed

section \<open>Validation of one manifest\<close>






section \<open>Directory scanning: depth bound and flag\<close>

lemma scanDirectory_unfold:
  "scanDirectory fs directoryPath opts =
     (if currentDepth opts \<ge> maxDepth opts
      then ScanResult directoryPath [] [] [] 0 True
      else
       (case readdir fs directoryPath of
          Inl e \<Rightarrow> handleFileSystemError e
        | Inr entries \<Rightarrow>
           (case fold (scanEntry fs directoryPath opts) entries (Inr init_scan_state) of
              Inl e \<Rightarrow> handleFileSystemError e
            | Inr st \<Rightarrow> ScanResult directoryPath (st_files st) (st_directories st)
                         (st_subdirectories st) (st_totalFiles st) (st_maxDepthReached st))))"
  unfolding scanEntry_def [abs_def] by (rule scanDirectory.simps)

lemma scanDirectory_dom_all: "scanDirectory_dom (fs, p, opts)"
proof (induction "nat (maxDepth opts - currentDepth opts)" arbitrary: p opts rule: less_induct)
  case less
  show ?case
    by (rule scanDirectory.domintros, rule less) simp
qed

lemma handleFileSystemError_fails [simp]: "\<not> success (handleFileSystemError e)"
  by (simp add: handleFileSystemError_def)

lemma nesting_handle [simp]: "nesting (handleFileSystemError e) = 0"
  by (simp add: handleFileSystemError_def)

lemma flag_handle [simp]: "\<not> flag_anywhere (handleFileSystemError e)"
  by (simp add: handleFileSystemError_def)

lemma fold_scanEntry_Inl [simp]: "fold (scanEntry fs d opts) es (Inl e) = Inl e"
  by (induction es) (simp_all add: scanEntry_def)

lemma foldr_max_le: "foldr max xs (0::nat) \<le> k \<longleftrightarrow> (\<forall>x \<in> set xs. x \<le> k)"
  by (induction xs) auto

text \<open>What one iteration does to the list of sub-results.\<close>

lemma scanEntry_subdirectories:
  assumes "scanEntry fs d opts e (Inr st) = Inr st'"
  shows "st_subdirectories st' = st_subdirectories st \<or>
         (recursive opts \<and> currentDepth opts < maxDepth opts \<and>
          st_subdirectories st' = st_subdirectories st @
            [scanDirectory fs (path_join d e) (opts\<lparr>opt_currentDepth := Some (currentDepth opts + 1)\<rparr>)])"
  using assms
  by (auto simp: scanEntry_def Let_def split: sum.splits if_splits)

lemma fold_scanEntry_subs:
  assumes "fold (scanEntry fs d opts) es (Inr st) = Inr st'"
    and "r \<in> set (st_subdirectories st')"
  shows "r \<in> set (st_subdirectories st) \<or>
         (recursive opts \<and> currentDepth opts < maxDepth opts \<and>
          (\<exists>e \<in> set es. r = scanDirectory fs (path_join d e)
                               (opts\<lparr>opt_currentDepth := Some (currentDepth opts + 1)\<rparr>)))"
  using assms
proof (induction es arbitrary: st)
  case Nil
  then show ?case by simp
next
  case (Cons e es)
  show ?case
  proof (cases "scanEntry fs d opts e (Inr st)")
    case (Inl err)
    with Cons.prems show ?thesis by simp
  next
    case (Inr st1)
    with Cons.prems have f: "fold (scanEntry fs d opts) es (Inr st1) = Inr st'" by simp
    from Cons.IH [OF f Cons.prems(2)] scanEntry_subdirectories [OF Inr]
    show ?thesis by auto
  qed
qed

lemma scanDirectory_subs:
  assumes "r \<in> set (subdirectories (scanDirectory fs d opts))"
  shows "currentDepth opts < maxDepth opts \<and>
         (\<exists>e. r = scanDirectory fs (path_join d e) (opts\<lparr>opt_currentDepth := Some (currentDepth opts + 1)\<rparr>))"
proof (cases "maxDepth opts \<le> currentDepth opts")
  case True
  with assms show ?thesis by (simp add: scanDirectory_unfold)
next
  case False
  show ?thesis
  proof (cases "readdir fs d")
    case (Inl err)
    with assms False show ?thesis
      by (simp add: scanDirectory_unfold handleFileSystemError_def split: if_splits)
  next
    case (Inr es)
    show ?thesis
    proof (cases "fold (scanEntry fs d opts) es (Inr init_scan_state)")
      case (Inl err)
      with assms False Inr show ?thesis
        by (simp add: scanDirectory_unfold handleFileSystemError_def split: if_splits)
    next
      case st: (Inr st')
      with assms False Inr have "r \<in> set (st_subdirectories st')"
        by (simp add: scanDirectory_unfold)
      from fold_scanEntry_subs [OF st this] show ?thesis
        by (auto simp: init_scan_state_def)
    qed
  qed
qed

lemma nesting_subs:
  "nesting r \<le> k \<longleftrightarrow> (\<forall>s \<in> set (subdirectories r). Suc (nesting s) \<le> k)"
  by (cases r) (auto simp: foldr_max_le)

lemma nesting_bound: "int (nesting (scanDirectory fs p opts)) \<le> max 0 (maxDepth opts - currentDepth opts)"
proof (induction "nat (maxDepth opts - currentDepth opts)" arbitrary: p opts rule: less_induct)
  case less
  let ?k = "nat (maxDepth opts - currentDepth opts)"
  have "nesting (scanDirectory fs p opts) \<le> ?k"
    unfolding nesting_subs [of "scanDirectory fs p opts" ?k]
  proof
    fix s assume s: "s \<in> set (subdirectories (scanDirectory fs p opts))"
    from scanDirectory_subs [OF s] obtain e where
      lt: "currentDepth opts < maxDepth opts" and
      eq: "s = scanDirectory fs (path_join p e) (opts\<lparr>opt_currentDepth := Some (currentDepth opts + 1)\<rparr>)"
      by blast
    let ?o = "opts\<lparr>opt_currentDepth := Some (currentDepth opts + 1)\<rparr>"
    from lt have "nat (maxDepth ?o - currentDepth ?o) < ?k" by simp
    from less [OF this, of "path_join p e"] eq lt
    show "Suc (nesting s) \<le> ?k" by simp
  qed
  then show ?case by simp
qed

text \<open>Upward propagation of the flag.\<close>

lemma scanEntry_flag:
  assumes "scanEntry fs d opts e (Inr st) = Inr st'"
  shows "(st_maxDepthReached st \<longrightarrow> st_maxDepthReached st') \<and>
         (\<forall>r \<in> set (st_subdirectories st'). r \<in> set (st_subdirectories st) \<or>
              (maxDepthReached r \<longrightarrow> st_maxDepthReached st'))"
  using assms
  by (auto simp: scanEntry_def Let_def split: sum.splits if_splits)

lemma fold_scanEntry_flag:
  assumes "fold (scanEntry fs d opts) es (Inr st) = Inr st'"
  shows "(st_maxDepthReached st \<longrightarrow> st_maxDepthReached st') \<and>
         (\<forall>r \<in> set (st_subdirectories st'). r \<in> set (st_subdirectories st) \<or>
              (maxDepthReached r \<longrightarrow> st_maxDepthReached st'))"
  using assms
proof (induction es arbitrary: st)
  case Nil
  then show ?case by simp
next
  case (Cons e es)
  show ?case
  proof (cases "scanEntry fs d opts e (Inr st)")
    case (Inl err)
    with Cons.prems show ?thesis by simp
  next
    case (Inr st1)
    with Cons.prems have f: "fold (scanEntry fs d opts) es (Inr st1) = Inr st'" by simp
    from Cons.IH [OF f] scanEntry_flag [OF Inr]
    show ?thesis by blast
  qed
qed

lemma scanDirectory_flag_step:
  assumes "r \<in> set (subdirectories (scanDirectory fs d opts))" and "maxDepthReached r"
  shows "maxDepthReached (scanDirectory fs d opts)"
proof (cases "maxDepth opts \<le> currentDepth opts")
  case True
  then show ?thesis by (simp add: scanDirectory_unfold)
next
  case False
  show ?thesis
  proof (cases "readdir fs d")
    case (Inl err)
    with assms False show ?thesis
      by (simp add: scanDirectory_unfold handleFileSystemError_def split: if_splits)
  next
    case (Inr es)
    show ?thesis
    proof (cases "fold (scanEntry fs d opts) es (Inr init_scan_state)")
      case (Inl err)
      with assms False Inr show ?thesis
        by (simp add: scanDirectory_unfold handleFileSystemError_def split: if_splits)
    next
      case st: (Inr st')
      with assms False Inr have "r \<in> set (st_subdirectories st')"
        by (simp add: scanDirectory_unfold)
      with fold_scanEntry_flag [OF st] assms(2) have "st_maxDepthReached st'"
        by (auto simp: init_scan_state_def)
      with False Inr st show ?thesis by (simp add: scanDirectory_unfold)
    qed
  qed
qed

lemma flag_anywhere_iff:
  "flag_anywhere r \<longleftrightarrow> (success r \<and> (maxDepthReached r \<or> (\<exists>s \<in> set (subdirectories r). flag_anywhere s)))"
  by (cases r) (auto simp: list_ex_iff)

lemma flag_propagates: "flag_anywhere (scanDirectory fs p opts) \<Longrightarrow> maxDepthReached (scanDirectory fs p opts)"
proof (induction "nat (maxDepth opts - currentDepth opts)" arbitrary: p opts rule: less_induct)
  case less
  from less.prems have "maxDepthReached (scanDirectory fs p opts) \<or>
      (\<exists>s \<in> set (subdirectories (scanDirectory fs p opts)). flag_anywhere s)"
    using flag_anywhere_iff by blast
  then show ?case
  proof
    assume "maxDepthReached (scanDirectory fs p opts)" then show ?thesis .
  next
    assume "\<exists>s \<in> set (subdirectories (scanDirectory fs p opts)). flag_anywhere s"
    then obtain s where s: "s \<in> set (subdirectories (scanDirectory fs p opts))" and fl: "flag_anywhere s"
      by blast
    from scanDirectory_subs [OF s] obtain e where
      lt: "currentDepth opts < maxDepth opts" and
      eq: "s = scanDirectory fs (path_join p e) (opts\<lparr>opt_currentDepth := Some (currentDepth opts + 1)\<rparr>)"
      by blast
    let ?o = "opts\<lparr>opt_currentDepth := Some (currentDepth opts + 1)\<rparr>"
    from lt have "nat (maxDepth ?o - currentDepth ?o) < nat (maxDepth opts - currentDepth opts)" by simp
    from less.hyps [OF this, of "path_join p e"] fl eq have "maxDepthReached s" by simp
    with s show ?thesis by (rule scanDirectory_flag_step)
  qed
qed

lemma scanEntry_cases:
  "scanEntry fs d opts e (Inr st) = Inl err \<longleftrightarrow> stat fs (path_join d e) = Inl err"
  by (auto simp: scanEntry_def Let_def split: sum.splits if_splits)

lemma scanEntry_ok:
  "stat_ok fs (path_join d e) \<longleftrightarrow> (\<exists>st'. scanEntry fs d opts e (Inr st) = Inr st')"
  by (auto simp: scanEntry_def stat_ok_def Let_def split: sum.splits if_splits)

lemma scanEntry_files:
  assumes "scanEntry fs d opts e (Inr st) = Inr st'"
  shows "map file_path (st_files st') =
           map file_path (st_files st) @
           map (path_join d) (filter (is_manifest_file fs (extensions opts) d) [e])"
  using assms
  by (auto simp: scanEntry_def is_manifest_file_def Let_def split: sum.splits if_splits)

lemma scanEntry_subs_exact:
  assumes "scanEntry fs d opts e (Inr st) = Inr st'"
    and "recursive opts" and "currentDepth opts < maxDepth opts"
  shows "st_subdirectories st' =
           st_subdirectories st @
           filter success
             (map (\<lambda>p. scanDirectory fs p (opts\<lparr>opt_currentDepth := Some (currentDepth opts + 1)\<rparr>))
                (filter (is_dir fs) [path_join d e]))"
  using assms
  by (auto simp: scanEntry_def is_dir_def Let_def split: sum.splits if_splits)

lemma fold_scanEntry_ok:
  "(\<exists>st'. fold (scanEntry fs d opts) es (Inr st) = Inr st') \<longleftrightarrow>
     list_all (\<lambda>e. stat_ok fs (path_join d e)) es"
proof (induction es arbitrary: st)
  case Nil
  then show ?case by simp
next
  case (Cons e es)
  show ?case
  proof (cases "scanEntry fs d opts e (Inr st)")
    case (Inl err)
    then have "\<not> stat_ok fs (path_join d e)"
      using scanEntry_ok [of fs d e opts st] by simp
    with Inl show ?thesis by simp
  next
    case (Inr st1)
    then have "stat_ok fs (path_join d e)"
      using scanEntry_ok [of fs d e opts st] by simp
    with Inr Cons.IH [of st1] show ?thesis by simp
  qed
qed

lemma fold_scanEntry_files:
  assumes "fold (scanEntry fs d opts) es (Inr st) = Inr st'"
  shows "map file_path (st_files st') =
           map file_path (st_files st) @
           map (path_join d) (filter (is_manifest_file fs (extensions opts) d) es)"
  using assms
proof (induction es arbitrary: st)
  case Nil
  then show ?case by simp
next
  case (Cons e es)
  show ?case
  proof (cases "scanEntry fs d opts e (Inr st)")
    case (Inl err)
    with Cons.prems show ?thesis by simp
  next
    case (Inr st1)
    with Cons.prems have f: "fold (scanEntry fs d opts) es (Inr st1) = Inr st'" by simp
    from Cons.IH [OF f] scanEntry_files [OF Inr] show ?thesis by simp
  qed
qed

lemma fold_scanEntry_subs_exact:
  assumes "fold (scanEntry fs d opts) es (Inr st) = Inr st'"
    and "recursive opts" and "currentDepth opts < maxDepth opts"
  shows "st_subdirectories st' =
           st_subdirectories st @
           filter success
             (map (\<lambda>p. scanDirectory fs p (opts\<lparr>opt_currentDepth := Some (currentDepth opts + 1)\<rparr>))
                (filter (is_dir fs) (map (path_join d) es)))"
  using assms
proof (induction es arbitrary: st)
  case Nil
  then show ?case by simp
next
  case (Cons e es)
  show ?case
  proof (cases "scanEntry fs d opts e (Inr st)")
    case (Inl err)
    with Cons.prems show ?thesis by simp
  next
    case (Inr st1)
    with Cons.prems have f: "fold (scanEntry fs d opts) es (Inr st1) = Inr st'" by simp
    from Cons.IH [OF f Cons.prems(2,3)] scanEntry_subs_exact [OF Inr Cons.prems(2,3)]
    show ?thesis by simp
  qed
qed

text \<open>Below the depth ceiling a scan succeeds exactly on a readable directory.\<close>

lemma scanDirectory_success:
  assumes "currentDepth opts < maxDepth opts"
  shows "success (scanDirectory fs d opts) \<longleftrightarrow> dir_readable fs d"
proof (cases "readdir fs d")
  case (Inl err)
  with assms show ?thesis by (simp add: scanDirectory_unfold dir_readable_def)
next
  case (Inr es)
  show ?thesis
  proof (cases "fold (scanEntry fs d opts) es (Inr init_scan_state)")
    case (Inl err)
    with fold_scanEntry_ok [of fs d opts es init_scan_state]
    have "\<not> list_all (\<lambda>e. stat_ok fs (path_join d e)) es" by simp
    with assms Inr Inl show ?thesis by (simp add: scanDirectory_unfold dir_readable_def)
  next
    case st: (Inr st')
    with fold_scanEntry_ok [of fs d opts es init_scan_state]
    have "list_all (\<lambda>e. stat_ok fs (path_join d e)) es" by simp
    with assms Inr st show ?thesis by (simp add: scanDirectory_unfold dir_readable_def)
  qed
qed

lemma scanDirectory_readable:
  assumes "currentDepth opts < maxDepth opts" and "dir_readable fs d"
  shows "map file_path (files (scanDirectory fs d opts)) = directFiles fs (extensions opts) d"
    and "recursive opts \<Longrightarrow> subdirectories (scanDirectory fs d opts) =
           map (\<lambda>p. scanDirectory fs p (opts\<lparr>opt_currentDepth := Some (currentDepth opts + 1)\<rparr>))
             (filter (\<lambda>p. is_dir fs p \<and>
                        success (scanDirectory fs p (opts\<lparr>opt_currentDepth := Some (currentDepth opts + 1)\<rparr>)))
                (map (path_join d) (entries_of fs d)))"
proof -
  from assms(2) obtain es where es: "readdir fs d = Inr es"
    and ok: "list_all (\<lambda>e. stat_ok fs (path_join d e)) es"
    by (auto simp: dir_readable_def split: sum.splits)
  from ok fold_scanEntry_ok [of fs d opts es init_scan_state]
  obtain st' where st: "fold (scanEntry fs d opts) es (Inr init_scan_state) = Inr st'" by blast
  from assms(1) es st have r: "scanDirectory fs d opts =
      ScanResult d (st_files st') (st_directories st') (st_subdirectories st')
        (st_totalFiles st') (st_maxDepthReached st')"
    by (simp add: scanDirectory_unfold)
  from fold_scanEntry_files [OF st] r es
  show "map file_path (files (scanDirectory fs d opts)) = directFiles fs (extensions opts) d"
    by (simp add: directFiles_def entries_of_def init_scan_state_def)
  assume "recursive opts"
  from fold_scanEntry_subs_exact [OF st this assms(1)] r es
  show "subdirectories (scanDirectory fs d opts) =
           map (\<lambda>p. scanDirectory fs p (opts\<lparr>opt_currentDepth := Some (currentDepth opts + 1)\<rparr>))
             (filter (\<lambda>p. is_dir fs p \<and>
                        success (scanDirectory fs p (opts\<lparr>opt_currentDepth := Some (currentDepth opts + 1)\<rparr>)))
                (map (path_join d) (entries_of fs d)))"
    by (simp add: entries_of_def init_scan_state_def filter_map comp_def)
qed


lemma scanDirectory_keeps_flagged:
  assumes "success (scanDirectory fs p opts)" and "recursive opts"
    and "currentDepth opts < maxDepth opts"
    and "e \<in> set (entries_of fs p)" and "is_dir fs (path_join p e)"
    and "success (scanDirectory fs (path_join p e)
                   (opts\<lparr>opt_currentDepth := Some (currentDepth opts + 1)\<rparr>))"
    and "maxDepthReached (scanDirectory fs (path_join p e)
                   (opts\<lparr>opt_currentDepth := Some (currentDepth opts + 1)\<rparr>))"
  shows "maxDepthReached (scanDirectory fs p opts)"
proof -
  let ?sub = "\<lambda>q. scanDirectory fs q (opts\<lparr>opt_currentDepth := Some (currentDepth opts + 1)\<rparr>)"
  from assms(1,3) have "dir_readable fs p" by (simp add: scanDirectory_success)
  from scanDirectory_readable(2) [OF assms(3) this assms(2)] assms(4,5,6)
  have "?sub (path_join p e) \<in> set (subdirectories (scanDirectory fs p opts))" by simp
  then show ?thesis using assms(7) by (rule scanDirectory_flag_step)
qed

lemma endless_scan:
  "scanDirectory endless_fs ''r'' (no_options\<lparr>opt_recursive := Some True, opt_maxDepth := Some 2\<rparr>) =
     ScanResult ''r'' []
       [\<lparr>dir_name = ''d'', dir_path = ''r/d'', dir_size = 4096, dir_mtime = 0\<rparr>]
       [ScanResult ''r/d'' []
          [\<lparr>dir_name = ''d'', dir_path = ''r/d/d'', dir_size = 4096, dir_mtime = 0\<rparr>]
          [ScanResult ''r/d/d'' [] [] [] 0 True] 0 True]
       0 True"
  by code_simp

text \<open>
  C10, as stated, on \<open>cut_fs\<close> with \<open>maxDepth\<close> 2: the scan of \<open>r/a\<close> recurses into \<open>r/a/b\<close>,
  which is at the depth ceiling and returns the flagged empty result, so the flag is set
  in \<open>r/a\<close>; then \<open>stat\<close> fails on \<open>r/a/x\<close> and the scan of \<open>r/a\<close> returns the error
  object. The root drops that failed sub-result, and its own result is successful with
  \<open>maxDepthReached\<close> false: the flag did not reach the root.
\<close>

theorem scanDirectory_flag_lost_counterexample:
  "scanDirectory cut_fs ''r/a/b''
     (no_options\<lparr>opt_recursive := Some True, opt_maxDepth := Some 2, opt_currentDepth := Some 2\<rparr>)
     = ScanResult ''r/a/b'' [] [] [] 0 True
   \<and> (case scanEntry cut_fs ''r/a''
              (no_options\<lparr>opt_recursive := Some True, opt_maxDepth := Some 2,
                           opt_currentDepth := Some 1\<rparr>) ''b'' (Inr init_scan_state)
       of Inr st \<Rightarrow> st_maxDepthReached st | Inl e \<Rightarrow> False)
   \<and> \<not> success (scanDirectory cut_fs ''r/a''
              (no_options\<lparr>opt_recursive := Some True, opt_maxDepth := Some 2,
                           opt_currentDepth := Some 1\<rparr>))
   \<and> scanDirectory cut_fs ''r'' (no_options\<lparr>opt_recursive := Some True, opt_maxDepth := Some 2\<rparr>)
     = ScanResult ''r'' []
         [\<lparr>dir_name = ''a'', dir_path = ''r/a'', dir_size = 4096, dir_mtime = 0\<rparr>] [] 0 False"
  by code_simp

text \<open>
  C10, amended: \<open>scanDirectory\<close> terminates on every file system, also one whose
  directories nest without end: every argument is in the domain of the recursion. When
  \<open>maxDepth\<close> is not given it is 10. At the depth ceiling (\<open>currentDepth \<ge> maxDepth\<close>) the
  call returns the successful empty result with \<open>maxDepthReached\<close> set. Every sub-result
  comes from a recursive call made under \<open>currentDepth < maxDepth\<close> with
  \<open>currentDepth + 1\<close>, so results never nest deeper than the distance to \<open>maxDepth\<close>. The
  flag goes up through successful scans only: a successful scan is flagged when the scan
  of one of its subdirectories succeeded and is flagged, hence a flag anywhere inside a
  result is also at its root; the result of a failed scan is dropped by its parent, with
  whatever flag was set below it.
\<close>

theorem scanDirectory_terminates:
  "scanDirectory_dom (fs, p, opts)
   \<and> (opt_maxDepth opts = None \<longrightarrow>
        int (nesting (scanDirectory fs p opts)) \<le> max 0 (10 - currentDepth opts) \<and>
        (10 \<le> currentDepth opts \<longrightarrow> scanDirectory fs p opts = ScanResult p [] [] [] 0 True))
   \<and> (maxDepth opts \<le> currentDepth opts \<longrightarrow>
        scanDirectory fs p opts = ScanResult p [] [] [] 0 True)
   \<and> (\<forall>r \<in> set (subdirectories (scanDirectory fs p opts)).
        currentDepth opts < maxDepth opts \<and>
        (\<exists>e. r = scanDirectory fs (path_join p e)
                   (opts\<lparr>opt_currentDepth := Some (currentDepth opts + 1)\<rparr>)))
   \<and> int (nesting (scanDirectory fs p opts)) \<le> max 0 (maxDepth opts - currentDepth opts)
   \<and> (success (scanDirectory fs p opts) \<and> recursive opts \<and> currentDepth opts < maxDepth opts \<and>
       e \<in> set (entries_of fs p) \<and> is_dir fs (path_join p e) \<and>
       success (scanDirectory fs (path_join p e)
                  (opts\<lparr>opt_currentDepth := Some (currentDepth opts + 1)\<rparr>)) \<and>
       maxDepthReached (scanDirectory fs (path_join p e)
                  (opts\<lparr>opt_currentDepth := Some (currentDepth opts + 1)\<rparr>)) \<longrightarrow>
        maxDepthReached (scanDirectory fs p opts))
   \<and> (flag_anywhere (scanDirectory fs p opts) \<longrightarrow> maxDepthReached (scanDirectory fs p opts))"
proof (intro conjI)
  show "scanDirectory_dom (fs, p, opts)" by (rule scanDirectory_dom_all)
  show "opt_maxDepth opts = None \<longrightarrow>
        int (nesting (scanDirectory fs p opts)) \<le> max 0 (10 - currentDepth opts) \<and>
        (10 \<le> currentDepth opts \<longrightarrow> scanDirectory fs p opts = ScanResult p [] [] [] 0 True)"
  proof
    assume "opt_maxDepth opts = None"
    then have m: "maxDepth opts = 10" by (simp add: maxDepth_def)
    from nesting_bound [of fs p opts] m
    show "int (nesting (scanDirectory fs p opts)) \<le> max 0 (10 - currentDepth opts) \<and>
        (10 \<le> currentDepth opts \<longrightarrow> scanDirectory fs p opts = ScanResult p [] [] [] 0 True)"
      by (simp add: scanDirectory_unfold)
  qed
  show "maxDepth opts \<le> currentDepth opts \<longrightarrow>
        scanDirectory fs p opts = ScanResult p [] [] [] 0 True"
    by (simp add: scanDirectory_unfold)
  show "\<forall>r \<in> set (subdirectories (scanDirectory fs p opts)).
        currentDepth opts < maxDepth opts \<and>
        (\<exists>e. r = scanDirectory fs (path_join p e)
                   (opts\<lparr>opt_currentDepth := Some (currentDepth opts + 1)\<rparr>))"
    using scanDirectory_subs by blast
  show "int (nesting (scanDirectory fs p opts)) \<le> max 0 (maxDepth opts - currentDepth opts)"
    by (rule nesting_bound)
  show "success (scanDirectory fs p opts) \<and> recursive opts \<and> currentDepth opts < maxDepth opts \<and>
       e \<in> set (entries_of fs p) \<and> is_dir fs (path_join p e) \<and>
       success (scanDirectory fs (path_join p e)
                  (opts\<lparr>opt_currentDepth := Some (currentDepth opts + 1)\<rparr>)) \<and>
       maxDepthReached (scanDirectory fs (path_join p e)
                  (opts\<lparr>opt_currentDepth := Some (currentDepth opts + 1)\<rparr>)) \<longrightarrow>
        maxDepthReached (scanDirectory fs p opts)"
    using scanDirectory_keeps_flagged by blast
  show "flag_anywhere (scanDirectory fs p opts) \<longrightarrow> maxDepthReached (scanDirectory fs p opts)"
    using flag_propagates by blast
qed

theorem scanDirectory_terminates_witness:
  "scanDirectory endless_fs ''r/d/d''
       (no_options\<lparr>opt_recursive := Some True, opt_maxDepth := Some 2, opt_currentDepth := Some 2\<rparr>)
     = ScanResult ''r/d/d'' [] [] [] 0 True
   \<and> maxDepthReached
       (scanDirectory endless_fs ''r'' (no_options\<lparr>opt_recursive := Some True, opt_maxDepth := Some 2\<rparr>))
   \<and> maxDepthReached
       (scanDirectory endless_fs ''r/d''
          (no_options\<lparr>opt_recursive := Some True, opt_maxDepth := Some 2, opt_currentDepth := Some 1\<rparr>))
   \<and> nesting
       (scanDirectory endless_fs ''r'' (no_options\<lparr>opt_recursive := Some True, opt_maxDepth := Some 2\<rparr>))
      = 2
   \<and> nesting (scanDirectory endless_fs ''r'' (no_options\<lparr>opt_recursive := Some True\<rparr>)) \<le> 10"
proof -
  let ?o = "no_options\<lparr>opt_recursive := Some True, opt_maxDepth := Some 2\<rparr>"
  let ?o1 = "no_options\<lparr>opt_recursive := Some True, opt_maxDepth := Some 2, opt_currentDepth := Some 1\<rparr>"
  let ?o2 = "no_options\<lparr>opt_recursive := Some True, opt_maxDepth := Some 2, opt_currentDepth := Some 2\<rparr>"
  let ?top = "scanDirectory endless_fs ''r'' ?o"
  have o: "?o1\<lparr>opt_currentDepth := Some (currentDepth ?o1 + 1)\<rparr> = ?o2"
    "maxDepth ?o2 \<le> currentDepth ?o2" "recursive ?o1" "currentDepth ?o1 < maxDepth ?o1"
    "opt_maxDepth (no_options\<lparr>opt_recursive := Some True\<rparr>) = None"
    "currentDepth (no_options\<lparr>opt_recursive := Some True\<rparr>) = 0"
    by (simp_all add: no_options_def recursive_def maxDepth_def currentDepth_def)
  have ceiling: "scanDirectory endless_fs ''r/d/d'' ?o2 = ScanResult ''r/d/d'' [] [] [] 0 True"
    using scanDirectory_terminates [of endless_fs "''r/d/d''" ?o2] o(2) by blast
  have mid: "success (scanDirectory endless_fs ''r/d'' ?o1)"
    "''d'' \<in> set (entries_of endless_fs ''r/d'')" "is_dir endless_fs (path_join ''r/d'' ''d'')"
    "path_join ''r/d'' ''d'' = ''r/d/d''"
    by code_simp+
  have step: "maxDepthReached (scanDirectory endless_fs ''r/d'' ?o1)"
    using scanDirectory_terminates [of endless_fs "''r/d''" ?o1 "''d''"] o(1,3,4) mid ceiling
    by simp
  have "flag_anywhere ?top" by (simp add: endless_scan)
  then have flag: "maxDepthReached ?top"
    using scanDirectory_terminates [of endless_fs "''r''" ?o] by blast
  have n: "nesting ?top = 2" by (simp add: endless_scan)
  have d: "nesting (scanDirectory endless_fs ''r'' (no_options\<lparr>opt_recursive := Some True\<rparr>)) \<le> 10"
    using scanDirectory_terminates [of endless_fs "''r''" "no_options\<lparr>opt_recursive := Some True\<rparr>"] o(5,6)
    by simp
  from ceiling flag step n d show ?thesis by simp
qed

section \<open>Cache statistics\<close>

text \<open>
  C9: the hit rate reported by \<open>getCacheStats\<close> is \<open>hits / (hits + misses)\<close>, and \<open>0\<close>
  rather than \<open>NaN\<close> when both counters are zero. From the empty cache, two calls of
  \<open>optimizeDirectoryScanning\<close> on the same path report \<open>cached\<close> false and then true,
  after which \<open>hits = 1\<close>, \<open>misses = 1\<close> and the hit rate is one half.
\<close>

theorem getCacheStats_hitRate:
  "hitRate (getCacheStats st) =
     Fin (if hits st + misses st = 0 then 0
          else of_nat (hits st) / of_nat (hits st + misses st))
   \<and> hitRate (getCacheStats st) \<noteq> NaN
   \<and> (let (r1, s1) = optimizeDirectoryScanning fs t1 p empty_cache_state;
           (r2, s2) = optimizeDirectoryScanning fs t2 p s1
       in cached r1 = False \<and> cached r2 = True
          \<and> cs_hits (getCacheStats s2) = 1 \<and> cs_misses (getCacheStats s2) = 1
          \<and> hitRate (getCacheStats s2) = Fin (1 / 2))"
  by (simp add: getCacheStats_def optimizeDirectoryScanning_def empty_cache_state_def Let_def)

section \<open>Discovery of manifest files\<close>

text \<open>\<open>path.join\<close> on some roots that are not in normal form.\<close>

lemma path_join_examples:
  "path_join ''.'' ''a.json'' = ''a.json''"
  "path_join ''one/'' ''a.json'' = ''one/a.json''"
  "path_join ''./one'' ''a.json'' = ''one/a.json''"
  "path_join ''/'' ''a.json'' = ''/a.json''"
  "path_join ''one/../two'' ''a.json'' = ''two/a.json''"
  "path_join ''r'' ''d'' = ''r/d''"
  by code_simp+

text \<open>On a normalised directory and a plain name, \<open>path.join\<close> appends a slash and the name.\<close>

lemma split_slash_nonempty [simp]: "split_slash s \<noteq> []"
  by (induction s) (auto split: list.splits)























section \<open>Report metrics\<close>

text \<open>
  What holds of the two derived metrics: with a non-zero \<open>testCasesExecuted\<close> they are
  the rounded percentage and the quotient, a missing \<open>defectsFound\<close> counting as zero;
  without \<open>metrics\<close>, or with \<open>testCasesExecuted\<close> zero or \<open>null\<close>, both are \<open>null\<close>.
\<close>

lemma getPassRate_present:
  assumes "metrics r = Val m" and "testCasesExecuted m = Val e" and "e \<noteq> 0"
  shows "getPassRate r = Val (Fin (of_int \<lfloor>(e - (case defectsFound m of Val d \<Rightarrow> d | _ \<Rightarrow> 0)) / e * 100 + 1 / 2\<rfloor>))"
    and "getDefectDensity r = Val (Fin ((case defectsFound m of Val d \<Rightarrow> d | _ \<Rightarrow> 0) / e))"
  using assms
  by (cases "defectsFound m"; simp add: getPassRate_def getDefectDensity_def
        getTestCasesExecuted_def getDefectsFound_def Let_def)+

lemma getPassRate_guarded:
  assumes "metrics r = Undefined \<or> metrics r = Null \<or>
           (\<exists>m. metrics r = Val m \<and> (testCasesExecuted m = Null \<or> testCasesExecuted m = Val 0))"
  shows "getPassRate r = Null" and "getDefectDensity r = Null"
  using assms
  by (auto simp: getPassRate_def getDefectDensity_def getTestCasesExecuted_def Let_def)

text \<open>
  C2 at a report whose \<open>metrics\<close> object has no \<open>testCasesExecuted\<close>: the getter returns
  \<open>undefined\<close>, which is neither \<open>=== null\<close> nor \<open>=== 0\<close>, so both functions go on to
  compute with it and return \<open>NaN\<close> instead of \<open>null\<close>. With 50 executed and 5 defects
  the values are 90 and one tenth.
\<close>

theorem getPassRate_absent_executed:
  "getPassRate \<lparr>metrics = Val \<lparr>testCasesExecuted = Undefined, defectsFound = Val 5,
                                timeSpentHours = Undefined\<rparr>\<rparr> = Val NaN
   \<and> getDefectDensity \<lparr>metrics = Val \<lparr>testCasesExecuted = Undefined, defectsFound = Val 5,
                                timeSpentHours = Undefined\<rparr>\<rparr> = Val NaN
   \<and> getPassRate \<lparr>metrics = Val \<lparr>testCasesExecuted = Val 50, defectsFound = Val 5,
                                timeSpentHours = Undefined\<rparr>\<rparr> = Val (Fin 90)
   \<and> getDefectDensity \<lparr>metrics = Val \<lparr>testCasesExecuted = Val 50, defectsFound = Val 5,
                                timeSpentHours = Undefined\<rparr>\<rparr> = Val (Fin (1 / 10))"
  by code_simp

section \<open>Session duration\<close>

lemma parseTime_None:
  "parseTime env now t = None \<longleftrightarrow> falsy t \<or> malformed t"
  by (cases t)
     (auto simp: parseTime_def malformed_def list_ex_iff
           split: list.splits option.splits)

lemma duration_Null:
  "calculateDurationFromTimes env sess = Null \<longleftrightarrow>
     falsy (startTime sess) \<or> falsy (endTime sess) \<or>
     malformed (startTime sess) \<or> malformed (endTime sess)"
  using parseTime_None [of env "now_start env" "startTime sess"]
        parseTime_None [of env "now_end env" "endTime sess"]
  by (cases "parseTime env (now_start env) (startTime sess)";
      cases "parseTime env (now_end env) (endTime sess)")
     (auto simp: calculateDurationFromTimes_def)

lemma takeWhile_all: "list_all P xs \<Longrightarrow> takeWhile P (xs @ ys) = xs @ takeWhile P ys"
  by (induction xs) auto

lemma digit_not_space: "is_digit c \<Longrightarrow> \<not> is_space c"
  by (auto simp: is_digit_def is_space_def)

lemma digit_not_sign: "is_digit c \<Longrightarrow> c \<noteq> CHR ''-'' \<and> c \<noteq> CHR ''+''"
  by (auto simp: is_digit_def)

lemma parseInt_numeric_prefix:
  assumes "numeric_component p" and "q = [] \<or> \<not> is_digit (hd q)"
  shows "parseInt (p @ q) = Some (digits_value p)"
proof -
  from assms(1) obtain c cs where p: "p = c # cs" and c: "is_digit c" and cs: "list_all is_digit cs"
    by (cases p) (auto simp: numeric_component_def)
  from assms(2) have tq: "takeWhile is_digit q = []" by (cases q) auto
  have "takeWhile is_digit (p @ q) = p"
    using takeWhile_all [of is_digit p q] assms(1) tq by (simp add: numeric_component_def)
  with p c digit_not_space [OF c] digit_not_sign [OF c] show ?thesis
    by (simp add: parseInt_def Let_def)
qed

text \<open>
  What holds of the duration on a host with a fixed offset, for two well-formed times in
  the range of dates: the difference of the two times of day in minutes, rounded to the
  nearest integer with a tie going up.
\<close>

lemma duration_value:
  assumes "fixed_offset env off"
    "startTime sess = Val t1" "endTime sess = Val t2"
    "split_colon t1 = [a1, b1, c1]" "split_colon t2 = [a2, b2, c2]"
    "parseInt a1 = Some h1" "parseInt b1 = Some m1" "parseInt c1 = Some s1"
    "parseInt a2 = Some h2" "parseInt b2 = Some m2" "parseInt c2 = Some s2"
    "setHours env (now_start env) h1 m1 s1 \<noteq> InvalidDate"
    "setHours env (now_end env) h2 m2 s2 \<noteq> InvalidDate"
  shows "calculateDurationFromTimes env sess =
           Val (Fin (of_int \<lfloor>(of_int ((h2 - h1) * 3600 + (m2 - m1) * 60 + (s2 - s1)) :: rat) / 60
                             + 1 / 2\<rfloor>))"
proof -
  from assms(4) have n1: "t1 \<noteq> []" by auto
  from assms(5) have n2: "t2 \<noteq> []" by auto
  from assms(1) have lt: "LocalTime env = (\<lambda>t. t + off)" and ut: "UTC env = (\<lambda>t. t - off)"
    and day: "(now_start env + off) div msPerDay = (now_end env + off) div msPerDay"
    by (simp_all add: fixed_offset_def)
  let ?day = "(now_end env + off) div msPerDay * msPerDay"
  let ?e = "?day + (h2 * 3600000 + m2 * 60000 + s2 * 1000) - off"
  let ?s = "?day + (h1 * 3600000 + m1 * 60000 + s1 * 1000) - off"
  let ?d = "(h2 - h1) * 3600 + (m2 - m1) * 60 + (s2 - s1)"
  have d1: "setHours env (now_start env) h1 m1 s1 = Date ?s"
    using assms(12) by (simp add: setHours_def lt ut day Let_def split: if_splits)
  have d2: "setHours env (now_end env) h2 m2 s2 = Date ?e"
    using assms(13) by (simp add: setHours_def lt ut Let_def split: if_splits)
  have p1: "parseTime env (now_start env) (Val t1) = Some (Date ?s)"
    using assms n1 d1 by (simp add: parseTime_def)
  have p2: "parseTime env (now_end env) (Val t2) = Some (Date ?e)"
    using assms n2 d2 by (simp add: parseTime_def)
  have eq: "?e - ?s = 1000 * ?d" by (simp add: algebra_simps)
  have "(of_int (?e - ?s) :: rat) / (1000 * 60) = of_int (1000 * ?d) / (1000 * 60)"
    by (simp only: eq)
  also have "\<dots> = of_int ?d / 60" by simp
  finally have q: "(of_int (?e - ?s) :: rat) / (1000 * 60) = of_int ?d / 60" .
  have "calculateDurationFromTimes env sess =
          Val (Fin (of_int \<lfloor>(of_int (?e - ?s) :: rat) / (1000 * 60) + 1 / 2\<rfloor>))"
    using assms(2,3) n1 n2 p1 p2 by (simp add: calculateDurationFromTimes_def)
  then show ?thesis by (simp only: q)
qed

text \<open>
  Across a change of the offset the difference is in elapsed time: on a host that sets
  its clocks back one hour at 02:00 local time on that day, from \<open>00:30:00\<close> to
  \<open>03:30:00\<close> is 240 minutes.
\<close>

lemma duration_fall_back:
  "calculateDurationFromTimes fall_back
     \<lparr>startTime = Val ''00:30:00'', endTime = Val ''03:30:00''\<rparr> = Val (Fin 240)"
  by code_simp

text \<open>
  C5 at the start time \<open>10x:00:00\<close>: its first component is not numeric, yet on no host
  is the result \<open>null\<close>, and on a host on universal time it is 90 minutes: \<open>parseInt\<close>
  reads the leading \<open>10\<close> and ignores the rest, so the test \<open>isNaN(hours)\<close> of
  \<open>_parseTime\<close> lets the component through. The two examples of the specification come
  out as stated: \<open>10:00:00\<close> to \<open>11:30:00\<close> is 90 minutes, and a session without
  \<open>endTime\<close> gives \<open>null\<close>.
\<close>

theorem calculateDurationFromTimes_accepts_non_numeric:
  "\<not> numeric_component ''10x''
   \<and> split_colon ''10x:00:00'' = [''10x'', ''00'', ''00'']
   \<and> calculateDurationFromTimes env
         \<lparr>startTime = Val ''10x:00:00'', endTime = Val ''11:30:00''\<rparr> \<noteq> Null
   \<and> calculateDurationFromTimes utc_noon
         \<lparr>startTime = Val ''10x:00:00'', endTime = Val ''11:30:00''\<rparr> = Val (Fin 90)
   \<and> calculateDurationFromTimes utc_noon
         \<lparr>startTime = Val ''10:00:00'', endTime = Val ''11:30:00''\<rparr> = Val (Fin 90)
   \<and> calculateDurationFromTimes env \<lparr>startTime = st, endTime = Undefined\<rparr> = Null"
proof (intro conjI)
  show "\<not> numeric_component ''10x''" by code_simp
  show "split_colon ''10x:00:00'' = [''10x'', ''00'', ''00'']" by code_simp
  have m: "\<not> malformed (Val ''10x:00:00'')" "\<not> malformed (Val ''11:30:00'')" by code_simp+
  then show "calculateDurationFromTimes env
         \<lparr>startTime = Val ''10x:00:00'', endTime = Val ''11:30:00''\<rparr> \<noteq> Null"
    by (simp add: duration_Null)
  show "calculateDurationFromTimes utc_noon
         \<lparr>startTime = Val ''10x:00:00'', endTime = Val ''11:30:00''\<rparr> = Val (Fin 90)"
    by code_simp
  show "calculateDurationFromTimes utc_noon
         \<lparr>startTime = Val ''10:00:00'', endTime = Val ''11:30:00''\<rparr> = Val (Fin 90)"
    by code_simp
  show "calculateDurationFromTimes env \<lparr>startTime = st, endTime = Undefined\<rparr> = Null"
    by (simp add: calculateDurationFromTimes_def)
qed

section \<open>Retry with exponential backoff\<close>

lemma retry_loop_last_fail:
  assumes "1 \<le> M" and "invocations tr = M - 1" and "operation (M - 1) = Inl err"
  shows "retry_loop operation M b M le tr =
           retry_exhausted M (Some err) (tr\<lparr>invocations := M\<rparr>)"
  using assms by (subst retry_loop.simps) simp

lemma retry_loop_fail_step:
  assumes "1 \<le> a" and "a < M" and "invocations tr = a - 1" and "operation (a - 1) = Inl m"
  shows "retry_loop operation M b a le tr =
           retry_loop operation M b (Suc a) (Some m)
             (tr\<lparr>invocations := a, delays := delays tr @ [b * 2 ^ (a - 1)]\<rparr>)"
  using assms by (subst retry_loop.simps) (simp add: Let_def)

lemma retry_loop_success_step:
  assumes "1 \<le> a" and "a \<le> M" and "invocations tr = a - 1" and "operation (a - 1) = Inr v"
  shows "retry_loop operation M b a le tr =
           (Inr (RetrySuccess v a), tr\<lparr>invocations := a\<rparr>)"
  using assms by (subst retry_loop.simps) simp

lemma retry_loop_all_fail:
  assumes "M - a = d" and "1 \<le> a" and "a \<le> M" and "invocations tr = a - 1"
    and "\<forall>i < M. \<exists>err. operation i = Inl err"
  shows "retry_loop operation M b a le tr =
           retry_exhausted M (Some (projl (operation (M - 1))))
             (tr\<lparr>invocations := M,
                 delays := delays tr @ map (\<lambda>n. b * 2 ^ (n - 1)) [a..<M]\<rparr>)"
  using assms
proof (induction d arbitrary: a le tr)
  case 0
  then have a: "a = M" by simp
  from 0 have "M - 1 < M" by simp
  with 0 obtain err where m: "operation (M - 1) = Inl err" by blast
  from retry_loop_last_fail [of M tr operation err b le] 0 a m
  show ?case by simp
next
  case (Suc d)
  then have lt: "a < M" by simp
  then have "a - 1 < M" by simp
  with Suc.prems obtain m where m: "operation (a - 1) = Inl m" by blast
  let ?tr = "tr\<lparr>invocations := a, delays := delays tr @ [b * 2 ^ (a - 1)]\<rparr>"
  have step: "retry_loop operation M b a le tr = retry_loop operation M b (Suc a) (Some m) ?tr"
    using Suc.prems(2) lt Suc.prems(4) m by (rule retry_loop_fail_step)
  have d: "M - Suc a = d" using Suc.prems(1) by simp
  have i: "invocations ?tr = Suc a - 1" by simp
  have le': "1 \<le> Suc a" "Suc a \<le> M" using lt by simp_all
  have u: "[a..<M] = a # [Suc a..<M]" using lt by (rule upt_conv_Cons)
  show ?case
    unfolding step Suc.IH [OF d le' i Suc.prems(5)] u by simp
qed

lemma retry_loop_success:
  assumes "k - a = d" and "1 \<le> a" and "a \<le> k" and "k \<le> M" and "invocations tr = a - 1"
    and "\<forall>i < k - 1. \<exists>m. operation i = Inl m" and "operation (k - 1) = Inr v"
  shows "retry_loop operation M b a le tr =
           (Inr (RetrySuccess v k),
            tr\<lparr>invocations := k,
               delays := delays tr @ map (\<lambda>n. b * 2 ^ (n - 1)) [a..<k]\<rparr>)"
  using assms
proof (induction d arbitrary: a le tr)
  case 0
  then have a: "a = k" by simp
  from retry_loop_success_step [of k M tr operation v b le] 0 a
  show ?case by simp
next
  case (Suc d)
  then have lt: "a < k" by simp
  with Suc.prems(2) have "a - 1 < k - 1" by simp
  with Suc.prems obtain m where m: "operation (a - 1) = Inl m" by blast
  let ?tr = "tr\<lparr>invocations := a, delays := delays tr @ [b * 2 ^ (a - 1)]\<rparr>"
  from lt Suc.prems(4) have ltM: "a < M" by simp
  have step: "retry_loop operation M b a le tr = retry_loop operation M b (Suc a) (Some m) ?tr"
    using Suc.prems(2) ltM Suc.prems(5) m by (rule retry_loop_fail_step)
  have d: "k - Suc a = d" using Suc.prems(1) by simp
  have i: "invocations ?tr = Suc a - 1" by simp
  have le': "1 \<le> Suc a" "Suc a \<le> k" using lt by simp_all
  have u: "[a..<k] = a # [Suc a..<k]" using lt by (rule upt_conv_Cons)
  show ?case
    unfolding step Suc.IH [OF d le' Suc.prems(4) i Suc.prems(6,7)] u by simp
qed

text \<open>
  What holds of \<open>retryOperation\<close> for any \<open>maxRetries \<ge> 1\<close> and base delay: when every
  attempt throws, the operation is invoked \<open>maxRetries\<close> times, and the outcome is the
  failure \<open>max_retries_exceeded\<close> with \<open>attempts = maxRetries\<close> provided the value thrown
  last is not \<open>null\<close> or \<open>undefined\<close>; when attempt \<open>k\<close> is the first to succeed the result
  is the success with \<open>attempts = k\<close> after \<open>k\<close> invocations. In both cases the delay waited
  after failed attempt \<open>n\<close>, before attempt \<open>n + 1\<close>, is \<open>baseDelay * 2 ^ (n - 1)\<close>.
\<close>

lemma retryOperation_all_fail:
  assumes "1 \<le> M" and "\<forall>i < M. \<exists>err. operation i = Inl err"
  shows "retryOperation operation \<lparr>opt_maxRetries = Some M, opt_baseDelay = Some b\<rparr> =
           retry_exhausted M (Some (projl (operation (M - 1))))
             \<lparr>invocations = M, delays = map (\<lambda>n. b * 2 ^ (n - 1)) [1..<M]\<rparr>"
  using retry_loop_all_fail [of M 1 "M - 1" empty_trace operation b None, OF refl _ assms(1) _ assms(2)]
  by (simp add: retryOperation_def empty_trace_def)

lemma retryOperation_first_success:
  assumes "1 \<le> k" and "k \<le> M" and "\<forall>i < k - 1. \<exists>err. operation i = Inl err"
    and "operation (k - 1) = Inr v"
  shows "retryOperation operation \<lparr>opt_maxRetries = Some M, opt_baseDelay = Some b\<rparr> =
           (Inr (RetrySuccess v k),
            \<lparr>invocations = k, delays = map (\<lambda>n. b * 2 ^ (n - 1)) [1..<k]\<rparr>)"
  using retry_loop_success [of k 1 "k - 1" M empty_trace operation v b None,
          OF refl _ assms(1,2) _ assms(3,4)]
  by (simp add: retryOperation_def empty_trace_def)

text \<open>
  C8 at an operation that rejects without a reason, with \<open>maxRetries: 2\<close>: it is invoked
  twice, one delay of the default 1000 ms apart, and then \<open>retryOperation\<close> itself throws
  a \<open>TypeError\<close> on reading \<open>lastError.message\<close> instead of returning the failure. With an
  operation that always throws an \<open>Error\<close> the result is the failure with \<open>attempts = 2\<close>
  after two invocations; with the default options it is \<open>attempts = 3\<close> after three
  invocations and delays of 1000 and 2000 ms; and an operation that succeeds at its
  third invocation gives the success with \<open>attempts = 3\<close>.
\<close>

theorem retryOperation_nullish_rejection:
  "retryOperation (\<lambda>i. Inl ThrownNullish :: thrown + string)
       \<lparr>opt_maxRetries = Some 2, opt_baseDelay = None\<rparr> =
     (Inl (TypeError ''Cannot read properties of undefined (reading message)''),
      \<lparr>invocations = 2, delays = [1000]\<rparr>)
   \<and> retryOperation (\<lambda>i. Inl (Thrown (Val ''Permanent failure'')) :: thrown + string)
       \<lparr>opt_maxRetries = Some 2, opt_baseDelay = None\<rparr> =
     (Inr (RetryFailure ''max_retries_exceeded'' (Val ''Permanent failure'') 2),
      \<lparr>invocations = 2, delays = [1000]\<rparr>)
   \<and> retryOperation (\<lambda>i. Inl (Thrown (Val ''Permanent failure'')) :: thrown + string)
       \<lparr>opt_maxRetries = None, opt_baseDelay = None\<rparr> =
     (Inr (RetryFailure ''max_retries_exceeded'' (Val ''Permanent failure'') 3),
      \<lparr>invocations = 3, delays = [1000, 2000]\<rparr>)
   \<and> retryOperation
       (\<lambda>i. if i < 2 then Inl (Thrown (Val ''Temporary failure'')) else Inr ''success'')
       \<lparr>opt_maxRetries = Some 3, opt_baseDelay = None\<rparr> =
     (Inr (RetrySuccess ''success'' 3), \<lparr>invocations = 3, delays = [1000, 2000]\<rparr>)"
  by code_simp

section \<open>Merging manifest data\<close>

text \<open>
  C6 at the inputs where the code departs from it. Merging \<open>{a: {x: 1}}\<close> with
  \<open>{a: null}\<close> throws a \<open>TypeError\<close>: \<open>typeof null\<close> is \<open>'object'\<close> and \<open>null\<close> is not an array,
  so the code recurses and calls \<open>Object.entries(null)\<close>, where the extra value should
  have replaced the base value. Merging \<open>{a: [1, 2]}\<close> with \<open>{a: {y: 2}}\<close> merges into
  the array's indexed properties, because only the extra value is tested for being an
  array. The two examples of the specification come out as stated.
\<close>

theorem mergeManifestData_null_throws:
  "mergeManifestData (JObj [(''a'', JObj [(''x'', JNum 1)])]) (JObj [(''a'', JNull)])
     = Inl (TypeError ''Cannot convert undefined or null to object'')
   \<and> mergeManifestData (JObj [(''a'', JArr [JNum 1, JNum 2])])
        (JObj [(''a'', JObj [(''y'', JNum 2)])])
     = Inr [(''a'', JObj [(''0'', JNum 1), (''1'', JNum 2), (''y'', JNum 2)])]
   \<and> mergeManifestData (JObj [(''a'', JObj [(''x'', JNum 1)])])
        (JObj [(''a'', JObj [(''y'', JNum 2)])])
     = Inr [(''a'', JObj [(''x'', JNum 1), (''y'', JNum 2)])]
   \<and> mergeManifestData (JObj [(''a'', JArr [JNum 1, JNum 2])]) (JObj [(''a'', JArr [JNum 3])])
     = Inr [(''a'', JArr [JNum 3])]"
  by code_simp

end
